theory Spec2Isabelle
  imports Main "HOL-Library.Sublist"
begin

section \<open>Values crossing the boundary of \<open>utils/actions.ts\<close>\<close>

text \<open>
  The module is a set of async helpers over a wallet library. A helper does three kinds
  of things: it checks its request (\<open>assert\<close>, \<open>assertAddress\<close>), it computes
  a call descriptor, and it calls a collaborator (\<open>toWagmiProvider\<close>,
  \<open>readContract\<close>, \<open>handleTx\<close>, \<open>prepareSendTransaction\<close>, ...).
  The collaborators are not part of the module: they are the fields of an environment
  record, and every call to one of them is logged as an event, in program order.
  A thrown value is the \<open>Inl\<close> of a sum. What a helper can write to, its request object
  and the top-level bindings of the module, is a heap that the helper takes and gives back.
\<close>

text \<open>bigint is an unbounded integer: \<open>int\<close>. \<open>TAddress\<close> is a string;
  \<open>TAddress | undefined\<close> is a \<open>string option\<close>.\<close>

datatype connector = Connector nat

text \<open>A caller-supplied status callback, as an opaque reference.\<close>

datatype callback = Callback nat

text \<open>The value of \<open>props.onTrySomethingElse\<close>: a function supplied by the caller,
  or the closure that \<open>approveERC20\<close> creates (lines 57-65).\<close>

datatype fallback = CallerFallback nat | ApproveAlternateABI

text \<open>Thrown values. \<open>assert(c, msg)\<close> throws an assertion error with the message;
  \<open>assertAddress(a, name)\<close> throws its own error, which carries the name it was given;
  the wallet library throws errors of its own.\<close>

datatype js_error =
    AssertionError string
  | AddressError "string option"
  | LibraryError string

datatype abi =
    ERC20_ABI
  | ERC721_ABI
  | ERC1155_ABI
  | NFT_MIGRATOOOR_ABI
  | DISPERSE_ABI
  | ALTERNATE_ERC20_APPROVE_ABI

text \<open>An element of the \<open>args\<close> array of a contract call.\<close>

datatype arg =
    Addr "string option"
  | AddrFill "string option list"
  | UInt int
  | Flag bool
  | AddrList "string list"
  | UIntList "int list"
  | Bytes string

text \<open>The descriptor handed to \<open>readContract\<close> and \<open>handleTx\<close>. Only
  \<open>disperseETH\<close> sets \<open>value\<close>.\<close>

record contract_call =
  call_address :: "string option"
  call_abi :: abi
  functionName :: string
  args :: "arg list"
  call_value :: "int option"

text \<open>What \<open>toWagmiProvider\<close> resolves a connector to.\<close>

record wagmiProvider =
  wp_chainId :: nat
  wp_address :: "string option"

text \<open>The status object passed to the status callback: \<open>{none, pending, success, error}\<close>.\<close>

record tx_status =
  st_none :: bool
  st_pending :: bool
  st_success :: bool
  st_error :: bool

record receipt =
  rc_status :: string
  rc_hash :: string

text \<open>\<open>TTxResponse\<close>: \<open>{isSuccessful, receipt?, error?}\<close>.\<close>

record tx_response =
  isSuccessful :: bool
  tx_receipt :: "receipt option"
  tx_error :: "js_error option"

text \<open>The request prepared by \<open>prepareSendTransaction\<close>, with the fields the module
  reads and writes.\<close>

record tx_config =
  cfg_to :: "string option"
  cfg_value :: int
  cfg_gas :: "int option"
  cfg_maxPriorityFeePerGas :: "int option"

text \<open>\<open>TWriteTransaction\<close>, with the fields this module uses.\<close>

record writeTransaction =
  connector :: "connector option"
  contractAddress :: "string option"
  statusHandler :: "callback option"
  onTrySomethingElse :: "fallback option"

record isApprovedERC20_props =
  ia_connector :: "connector option"
  ia_contractAddress :: string
  ia_spenderAddress :: string
  ia_amount :: "int option"

record approveERC20_props = writeTransaction +
  ap_spenderAddress :: "string option"
  ap_amount :: int

record approveAllERC721_props = writeTransaction +
  aa_spenderAddress :: "string option"
  aa_shouldAllow :: bool

record transferERC721_props = writeTransaction +
  t721_receiverAddress :: "string option"
  t721_tokenID :: int

record batchTransferERC721_props = writeTransaction +
  bt_collectionAddress :: "string option"
  bt_receiverAddress :: "string option"
  bt_tokenIDs :: "int list"

record transferERC1155_props = writeTransaction +
  t1155_receiverAddress :: "string option"
  t1155_tokenIDs :: "int list"

record listERC1155_props = writeTransaction +
  l1155_tokenIDs :: "int list"

record transferERC20_props = writeTransaction +
  t20_receiverAddress :: "string option"
  t20_amount :: int

text \<open>\<open>Omit<TWriteTransaction, 'contractAddress'> & {...}\<close>.\<close>

record transferEther_props =
  te_connector :: "connector option"
  te_statusHandler :: "callback option"
  te_onTrySomethingElse :: "fallback option"
  te_receiverAddress :: "string option"
  te_amount :: int
  te_shouldAdjustForGas :: "bool option"

record disperseETH_props = writeTransaction +
  de_receivers :: "string list"
  de_amounts :: "int list"

record disperseERC20_props = writeTransaction +
  d20_tokenToDisperse :: "string option"
  d20_receivers :: "string list"
  d20_amounts :: "int list"

section \<open>Events and the environment\<close>

datatype event =
    ToWagmiProvider "connector option"
  | ReadContract wagmiProvider contract_call
  | HandleTx writeTransaction contract_call
  | StatusHandler callback tx_status
  | PrepareSendTransaction wagmiProvider "string option" int
  | GetPublicClient nat
  | GetGasPrice nat
  | SendTransaction tx_config
  | WaitForTransaction nat string
  | ConsoleError js_error
  | SetTimeout nat

text \<open>
  The collaborators, as functions of their arguments. \<open>addressOk a\<close> says that
  \<open>assertAddress(a, _)\<close> returns instead of throwing. \<open>readUint\<close> and
  \<open>readUintList\<close> are \<open>readContract\<close> at the two return types the ABIs give it here
  (\<open>uint256\<close> for \<open>allowance\<close>, \<open>uint256[]\<close> for \<open>balanceOfBatch\<close>).
  \<open>handleTx\<close> receives the request object itself, not a copy: it answers with the
  object as it leaves it and with its result. \<open>defaultTxStatus\<close> and
  \<open>MAX_UINT_256\<close> are the imported constants of these names.
\<close>

record env =
  addressOk :: "string option \<Rightarrow> bool"
  toWagmiProvider :: "connector option \<Rightarrow> js_error + wagmiProvider"
  readUint :: "wagmiProvider \<Rightarrow> contract_call \<Rightarrow> js_error + int"
  readUintList :: "wagmiProvider \<Rightarrow> contract_call \<Rightarrow> js_error + int list"
  handleTx :: "writeTransaction \<Rightarrow> contract_call \<Rightarrow> writeTransaction \<times> (js_error + tx_response)"
  prepareSendTransaction :: "wagmiProvider \<Rightarrow> string option \<Rightarrow> int \<Rightarrow> js_error + tx_config"
  getPublicClient :: "nat \<Rightarrow> js_error + nat"
  getGasPrice :: "nat \<Rightarrow> js_error + int"
  sendTransaction :: "tx_config \<Rightarrow> js_error + string"
  waitForTransaction :: "nat \<Rightarrow> string \<Rightarrow> js_error + receipt"
  defaultTxStatus :: tx_status
  MAX_UINT_256 :: int

text \<open>A run of a piece of code: the events it caused, then the value it returned or the
  value it threw.\<close>

type_synonym 'a act = "event list \<times> (js_error + 'a)"

definition ret :: "'a \<Rightarrow> 'a act" where
  "ret x = ([], Inr x)"

definition throw :: "js_error \<Rightarrow> 'a act" where
  "throw e = ([], Inl e)"

text \<open>Sequencing: a throw in the first part skips the second.\<close>

definition bind :: "'a act \<Rightarrow> ('a \<Rightarrow> 'b act) \<Rightarrow> 'b act" where
  "bind m f =
     (case m of
        (t, Inl e) \<Rightarrow> (t, Inl e)
      | (t, Inr x) \<Rightarrow> (case f x of (t', r) \<Rightarrow> (t @ t', r)))"

text \<open>A call to a collaborator: the event, then the collaborator's answer.\<close>

definition call :: "event \<Rightarrow> (js_error + 'a) \<Rightarrow> 'a act" where
  "call ev r = ([ev], r)"

text \<open>\<open>try { m } catch (error) { h error }\<close>.\<close>

definition try_catch :: "'a act \<Rightarrow> (js_error \<Rightarrow> 'a act) \<Rightarrow> 'a act" where
  "try_catch m h =
     (case m of
        (t, Inl e) \<Rightarrow> (case h e of (t', r) \<Rightarrow> (t @ t', r))
      | (t, Inr x) \<Rightarrow> (t, Inr x))"

text \<open>\<open>m finally { k }\<close>, for a \<open>k\<close> that cannot throw: its events follow those of
  \<open>m\<close> whatever \<open>m\<close> did.\<close>

definition finally_do :: "'a act \<Rightarrow> event list \<Rightarrow> 'a act" where
  "finally_do m k = (case m of (t, r) \<Rightarrow> (t @ k, r))"

text \<open>\<open>assert(c, msg)\<close>.\<close>

definition assert :: "bool \<Rightarrow> string \<Rightarrow> unit act" where
  "assert c msg = (if c then ret () else throw (AssertionError msg))"

text \<open>\<open>assertAddress(a, name)\<close>; the name is optional.\<close>

definition assertAddress :: "env \<Rightarrow> string option \<Rightarrow> string option \<Rightarrow> unit act" where
  "assertAddress E a name = (if addressOk E a then ret () else throw (AddressError name))"

text \<open>\<open>props.statusHandler?.(status)\<close>: nothing happens without a handler.\<close>

definition notify :: "callback option \<Rightarrow> tx_status \<Rightarrow> unit act" where
  "notify h s = (case h of None \<Rightarrow> ret () | Some cb \<Rightarrow> call (StatusHandler cb s) (Inr ()))"

text \<open>\<open>x || d\<close> for \<open>x: bigint | undefined\<close>: \<open>undefined\<close> and \<open>0n\<close> are falsy.\<close>

definition or_else :: "int option \<Rightarrow> int \<Rightarrow> int" where
  "or_else x d = (case x of None \<Rightarrow> d | Some v \<Rightarrow> if v = 0 then d else v)"

text \<open>\<open>toBigInt(x)\<close> of the web-lib is \<open>BigInt(x || 0)\<close>.\<close>

definition toBigInt :: "int option \<Rightarrow> int" where
  "toBigInt x = or_else x 0"

text \<open>\<open>xs[i]\<close>: \<open>undefined\<close> out of range.\<close>

definition at :: "'a list \<Rightarrow> nat \<Rightarrow> 'a option" where
  "at xs i = (if i < length xs then Some (xs ! i) else None)"

section \<open>The request object and the bindings of the module\<close>

text \<open>
  What a helper can write to: the request object it was given, and the bindings that the
  module declares at its top level. The module declares one, the constant
  \<open>ALTERNATE_ERC20_APPROVE_ABI\<close> of line 19, an array of one function descriptor. A
  call descriptor refers to an ABI by its name.
\<close>

record abi_function =
  abi_constant :: bool
  abi_inputs :: "(string \<times> string) list"
  abi_name :: string
  abi_outputs :: "(string \<times> string) list"
  abi_payable :: bool
  abi_stateMutability :: string
  abi_type :: string

record module_state =
  alternate_erc20_approve_abi :: "abi_function list"

text \<open>The bindings as the module declares them.\<close>

definition module_init :: module_state where
  "module_init =
     \<lparr>alternate_erc20_approve_abi =
        [\<lparr>abi_constant = False,
          abi_inputs = [(''_spender'', ''address''), (''_value'', ''uint256'')],
          abi_name = ''approve'', abi_outputs = [], abi_payable = False,
          abi_stateMutability = ''nonpayable'', abi_type = ''function''\<rparr>]\<rparr>"

record 'p heap =
  request :: 'p
  module_bindings :: module_state

text \<open>A piece of code that runs on the heap: the heap it leaves, and its run.\<close>

type_synonym ('p, 'a) hact = "'p heap \<Rightarrow> 'p heap \<times> 'a act"

text \<open>Code that neither writes to the heap nor hands the request object to anyone.\<close>

definition lift :: "'a act \<Rightarrow> ('p, 'a) hact" where
  "lift m h = (h, m)"

text \<open>Such code, followed by code that runs on the heap.\<close>

definition after :: "'a act \<Rightarrow> ('a \<Rightarrow> ('p, 'b) hact) \<Rightarrow> ('p, 'b) hact" where
  "after m f h =
     (case m of
        (t, Inl e) \<Rightarrow> (h, t, Inl e)
      | (t, Inr x) \<Rightarrow> (case f x h of (h', t', r) \<Rightarrow> (h', t @ t', r)))"

text \<open>An assignment to the request object, then the rest.\<close>

definition set_request :: "('p \<Rightarrow> 'p) \<Rightarrow> ('p, 'a) hact \<Rightarrow> ('p, 'a) hact" where
  "set_request u k h = k (h\<lparr>request := u (request h)\<rparr>)"

text \<open>A read of the request object as it is now.\<close>

definition with_request :: "('p \<Rightarrow> ('p, 'a) hact) \<Rightarrow> ('p, 'a) hact" where
  "with_request f h = f (request h) h"

text \<open>The fields of \<open>TWriteTransaction\<close> of an object, replaced by those of \<open>w\<close>.\<close>

definition overwrite :: "'a writeTransaction_scheme \<Rightarrow> writeTransaction \<Rightarrow> 'a writeTransaction_scheme" where
  "overwrite p w =
     p\<lparr>connector := connector w, contractAddress := contractAddress w,
       statusHandler := statusHandler w, onTrySomethingElse := onTrySomethingElse w\<rparr>"

text \<open>\<open>handleTx(props, c)\<close>: \<open>handleTx\<close> sees the request object as a
  \<open>TWriteTransaction\<close>, and the object is afterwards as \<open>handleTx\<close> left it.\<close>

definition callHandleTx :: "env \<Rightarrow> contract_call \<Rightarrow> ('a writeTransaction_scheme, tx_response) hact" where
  "callHandleTx E c h =
     (case handleTx E (writeTransaction.truncate (request h)) c of
        (w, r) \<Rightarrow>
          (h\<lparr>request := overwrite (request h) w\<rparr>,
           [HandleTx (writeTransaction.truncate (request h)) c], r))"

text \<open>A call of a helper: its body runs on the request object given and on the bindings of
  the module. A helper reads the fields of its request object before anything has been
  written to it, so what it reads are the fields of the object given; \<open>approveERC20\<close>,
  which writes to the object, reads it again after its write.\<close>

definition exec :: "'p \<Rightarrow> ('p, 'a) hact \<Rightarrow> 'p heap \<times> 'a act" where
  "exec props body = body \<lparr>request = props, module_bindings = module_init\<rparr>"

section \<open>The ERC1155 helpers\<close>

text \<open>
  The loop of lines 175-182 (and 208-215), from index \<open>i\<close> with the two arrays built so
  far. \<open>balanceOfBatch[i] > 0n\<close> is false when \<open>balanceOfBatch[i]\<close> is \<open>undefined\<close>.
\<close>

function filterLoop :: "int list \<Rightarrow> int list \<Rightarrow> nat \<Rightarrow> int list \<Rightarrow> int list \<Rightarrow> int list \<times> int list" where
  "filterLoop tokenIDs balanceOfBatch i filteredTokenIDs filteredAmounts =
     (if i < length tokenIDs then
        (case at balanceOfBatch i of
           None \<Rightarrow> filterLoop tokenIDs balanceOfBatch (Suc i) filteredTokenIDs filteredAmounts
         | Some b \<Rightarrow>
             if b > 0 then
               filterLoop tokenIDs balanceOfBatch (Suc i)
                 (filteredTokenIDs @ [tokenIDs ! i]) (filteredAmounts @ [b])
             else filterLoop tokenIDs balanceOfBatch (Suc i) filteredTokenIDs filteredAmounts)
      else (filteredTokenIDs, filteredAmounts))"
  by pat_completeness auto
termination
  by (relation "measure (\<lambda>(tokenIDs, balanceOfBatch, i, a, b). length tokenIDs - i)") auto

declare filterLoop.simps [simp del]

text \<open>The \<open>balanceOfBatch\<close> read of both helpers:
  \<open>args: [Array(tokenIDs.length).fill(wagmiProvider.address), tokenIDs]\<close>.\<close>

definition balanceOfBatch_call :: "string option \<Rightarrow> string option \<Rightarrow> int list \<Rightarrow> contract_call" where
  "balanceOfBatch_call contract user tokenIDs =
     \<lparr>call_address = contract, call_abi = ERC1155_ABI, functionName = ''balanceOfBatch'',
      args = [AddrFill (replicate (length tokenIDs) user),
              UIntList tokenIDs],
      call_value = None\<rparr>"

definition safeBatchTransferFrom_call ::
  "string option \<Rightarrow> string option \<Rightarrow> string option \<Rightarrow> int list \<Rightarrow> int list \<Rightarrow> contract_call" where
  "safeBatchTransferFrom_call contract user receiver ids amounts =
     \<lparr>call_address = contract, call_abi = ERC1155_ABI, functionName = ''safeBatchTransferFrom'',
      args = [Addr user, Addr receiver, UIntList ids, UIntList amounts, Bytes ''0x''],
      call_value = None\<rparr>"

definition transferERC1155 ::
  "env \<Rightarrow> transferERC1155_props \<Rightarrow> transferERC1155_props heap \<times> tx_response act" where
  "transferERC1155 E props =
     exec props (
      after (assertAddress E (t1155_receiverAddress props) (Some ''Receiver address'')) (\<lambda>_.
      after (assertAddress E (contractAddress props) (Some ''Contract address'')) (\<lambda>_.
      after (call (ToWagmiProvider (connector props)) (toWagmiProvider E (connector props))) (\<lambda>wagmiProvider.
      after (assertAddress E (wp_address wagmiProvider) (Some ''User address'')) (\<lambda>_.
      after (let c = balanceOfBatch_call (contractAddress props) (wp_address wagmiProvider)
                       (t1155_tokenIDs props)
             in call (ReadContract wagmiProvider c) (readUintList E wagmiProvider c)) (\<lambda>balanceOfBatch.
      case filterLoop (t1155_tokenIDs props) balanceOfBatch 0 [] [] of
        (filteredTokenIDs, filteredAmounts) \<Rightarrow>
      after (assert (length filteredTokenIDs > 0) ''No tokens to transfer'') (\<lambda>_.
      callHandleTx E
        (safeBatchTransferFrom_call (contractAddress props) (wp_address wagmiProvider)
           (t1155_receiverAddress props) filteredTokenIDs filteredAmounts))))))))"

definition listERC1155 ::
  "env \<Rightarrow> listERC1155_props \<Rightarrow> listERC1155_props heap \<times> (int list \<times> int list) act" where
  "listERC1155 E props =
     exec props (lift (
      bind (assertAddress E (contractAddress props) (Some ''Contract address'')) (\<lambda>_.
      bind (call (ToWagmiProvider (connector props)) (toWagmiProvider E (connector props))) (\<lambda>wagmiProvider.
      bind (assertAddress E (wp_address wagmiProvider) (Some ''User address'')) (\<lambda>_.
      bind (let c = balanceOfBatch_call (contractAddress props) (wp_address wagmiProvider)
                      (l1155_tokenIDs props)
            in call (ReadContract wagmiProvider c) (readUintList E wagmiProvider c)) (\<lambda>balanceOfBatch.
      case filterLoop (l1155_tokenIDs props) balanceOfBatch 0 [] [] of
        (filteredTokenIDs, filteredAmounts) \<Rightarrow> ret (filteredTokenIDs, filteredAmounts)))))))"

section \<open>The ERC20 and ERC721 helpers\<close>

definition allowance_call :: "isApprovedERC20_props \<Rightarrow> wagmiProvider \<Rightarrow> contract_call" where
  "allowance_call props wagmiProvider =
     \<lparr>call_address = Some (ia_contractAddress props), call_abi = ERC20_ABI,
      functionName = ''allowance'',
      args = [Addr (wp_address wagmiProvider), Addr (Some (ia_spenderAddress props))],
      call_value = None\<rparr>"

definition isApprovedERC20 ::
  "env \<Rightarrow> isApprovedERC20_props \<Rightarrow> isApprovedERC20_props heap \<times> bool act" where
  "isApprovedERC20 E props =
     exec props (lift (
      bind (call (ToWagmiProvider (ia_connector props)) (toWagmiProvider E (ia_connector props))) (\<lambda>wagmiProvider.
      bind (let c = allowance_call props wagmiProvider
            in call (ReadContract wagmiProvider c) (readUint E wagmiProvider c)) (\<lambda>result.
      ret (or_else (Some result) 0 \<ge> toBigInt (Some (or_else (ia_amount props) (MAX_UINT_256 E))))))))"

definition approve_call :: "abi \<Rightarrow> 'a approveERC20_props_scheme \<Rightarrow> contract_call" where
  "approve_call a props =
     \<lparr>call_address = contractAddress props, call_abi = a, functionName = ''approve'',
      args = [Addr (ap_spenderAddress props), UInt (ap_amount props)], call_value = None\<rparr>"

text \<open>The closure of lines 57-65, called when the request object is \<open>props\<close>.\<close>

definition approveERC20_onTrySomethingElse ::
  "env \<Rightarrow> approveERC20_props \<Rightarrow> approveERC20_props heap \<times> tx_response act" where
  "approveERC20_onTrySomethingElse E props =
     exec props (
      after (assertAddress E (ap_spenderAddress props) (Some ''spenderAddress'')) (\<lambda>_.
      callHandleTx E (approve_call ALTERNATE_ERC20_APPROVE_ABI props)))"

text \<open>\<open>approveERC20\<close> assigns \<open>props.onTrySomethingElse\<close> between its checks and its
  call of \<open>handleTx\<close>, which receives the object after the assignment.\<close>

definition approveERC20 ::
  "env \<Rightarrow> approveERC20_props \<Rightarrow> approveERC20_props heap \<times> tx_response act" where
  "approveERC20 E props =
     exec props (
      after (assertAddress E (ap_spenderAddress props) (Some ''spenderAddress'')) (\<lambda>_.
      after (assertAddress E (contractAddress props) None) (\<lambda>_.
      set_request (\<lambda>props. props\<lparr>onTrySomethingElse := Some ApproveAlternateABI\<rparr>) (
      with_request (\<lambda>props.
      callHandleTx E (approve_call ERC20_ABI props))))))"

definition approveAllERC721 ::
  "env \<Rightarrow> approveAllERC721_props \<Rightarrow> approveAllERC721_props heap \<times> tx_response act" where
  "approveAllERC721 E props =
     exec props (
      after (assertAddress E (aa_spenderAddress props) (Some ''spenderAddress'')) (\<lambda>_.
      after (assertAddress E (contractAddress props) None) (\<lambda>_.
      callHandleTx E
        \<lparr>call_address = contractAddress props, call_abi = ERC721_ABI,
         functionName = ''setApprovalForAll'',
         args = [Addr (aa_spenderAddress props), Flag (aa_shouldAllow props)],
         call_value = None\<rparr>)))"

definition transferERC721 ::
  "env \<Rightarrow> transferERC721_props \<Rightarrow> transferERC721_props heap \<times> tx_response act" where
  "transferERC721 E props =
     exec props (
      after (assertAddress E (t721_receiverAddress props) (Some ''Receiver address'')) (\<lambda>_.
      after (assertAddress E (contractAddress props) (Some ''Contract address'')) (\<lambda>_.
      after (call (ToWagmiProvider (connector props)) (toWagmiProvider E (connector props))) (\<lambda>wagmiProvider.
      after (assertAddress E (wp_address wagmiProvider) (Some ''User address'')) (\<lambda>_.
      callHandleTx E
        \<lparr>call_address = contractAddress props, call_abi = ERC721_ABI,
         functionName = ''safeTransferFrom'',
         args = [Addr (wp_address wagmiProvider), Addr (t721_receiverAddress props),
                 UInt (t721_tokenID props)],
         call_value = None\<rparr>)))))"

definition batchTransferERC721 ::
  "env \<Rightarrow> batchTransferERC721_props \<Rightarrow> batchTransferERC721_props heap \<times> tx_response act" where
  "batchTransferERC721 E props =
     exec props (
      after (assertAddress E (bt_collectionAddress props) (Some ''Collection address'')) (\<lambda>_.
      after (assertAddress E (bt_receiverAddress props) (Some ''Receiver address'')) (\<lambda>_.
      after (assertAddress E (contractAddress props) (Some ''Contract address'')) (\<lambda>_.
      callHandleTx E
        \<lparr>call_address = contractAddress props, call_abi = NFT_MIGRATOOOR_ABI,
         functionName = ''migrate'',
         args = [Addr (bt_collectionAddress props), Addr (bt_receiverAddress props),
                 UIntList (bt_tokenIDs props)],
         call_value = None\<rparr>))))"

definition transferERC20 ::
  "env \<Rightarrow> transferERC20_props \<Rightarrow> transferERC20_props heap \<times> tx_response act" where
  "transferERC20 E props =
     exec props (
      after (assertAddress E (t20_receiverAddress props) (Some ''receiverAddress'')) (\<lambda>_.
      after (assertAddress E (contractAddress props) None) (\<lambda>_.
      callHandleTx E
        \<lparr>call_address = contractAddress props, call_abi = ERC20_ABI,
         functionName = ''transfer'',
         args = [Addr (t20_receiverAddress props), UInt (t20_amount props)],
         call_value = None\<rparr>)))"

section \<open>transferEther\<close>

text \<open>\<open>!config.maxPriorityFeePerGas\<close>.\<close>

definition falsy :: "int option \<Rightarrow> bool" where
  "falsy x = (case x of None \<Rightarrow> True | Some v \<Rightarrow> v = 0)"

text \<open>Lines 269-273: the gas price stands in for a missing priority fee.\<close>

definition fillPriorityFee :: "env \<Rightarrow> wagmiProvider \<Rightarrow> tx_config \<Rightarrow> tx_config act" where
  "fillPriorityFee E wagmiProvider config =
     (if falsy (cfg_maxPriorityFeePerGas config) then
        bind (call (GetPublicClient (wp_chainId wagmiProvider))
                (getPublicClient E (wp_chainId wagmiProvider))) (\<lambda>client.
        bind (call (GetGasPrice client) (getGasPrice E client)) (\<lambda>gasPrice.
        ret (config\<lparr>cfg_maxPriorityFeePerGas := Some gasPrice\<rparr>)))
      else ret config)"

text \<open>Line 274.\<close>

definition newAmount :: "tx_config \<Rightarrow> int" where
  "newAmount config = toBigInt (cfg_gas config) * toBigInt (cfg_maxPriorityFeePerGas config) + 21000"

text \<open>Lines 268-280.\<close>

definition adjustForGas ::
  "env \<Rightarrow> transferEther_props \<Rightarrow> wagmiProvider \<Rightarrow> tx_config \<Rightarrow> tx_config act" where
  "adjustForGas E props wagmiProvider config =
     (if te_shouldAdjustForGas props = Some True then
        bind (fillPriorityFee E wagmiProvider config) (\<lambda>config.
        call (PrepareSendTransaction wagmiProvider (te_receiverAddress props)
                (te_amount props - newAmount config))
          (prepareSendTransaction E wagmiProvider (te_receiverAddress props)
             (te_amount props - newAmount config)))
      else ret config)"

text \<open>The body of the \<open>try\<close>, lines 263-288.\<close>

definition transferEther_try :: "env \<Rightarrow> transferEther_props \<Rightarrow> wagmiProvider \<Rightarrow> tx_response act" where
  "transferEther_try E props wagmiProvider =
     bind (call (PrepareSendTransaction wagmiProvider (te_receiverAddress props) (te_amount props))
             (prepareSendTransaction E wagmiProvider (te_receiverAddress props) (te_amount props))) (\<lambda>config.
     bind (adjustForGas E props wagmiProvider config) (\<lambda>config.
     bind (call (SendTransaction config) (sendTransaction E config)) (\<lambda>hash.
     bind (call (WaitForTransaction (wp_chainId wagmiProvider) hash)
             (waitForTransaction E (wp_chainId wagmiProvider) hash)) (\<lambda>receipt.
     bind (if rc_status receipt = ''success'' then
             notify (te_statusHandler props) ((defaultTxStatus E)\<lparr>st_success := True\<rparr>)
           else if rc_status receipt = ''reverted'' then
             notify (te_statusHandler props) ((defaultTxStatus E)\<lparr>st_error := True\<rparr>)
           else ret ()) (\<lambda>_.
     ret \<lparr>isSuccessful = (rc_status receipt = ''success''), tx_receipt = Some receipt,
          tx_error = None\<rparr>)))))"

text \<open>The \<open>catch\<close>, lines 289-293. What the wallet library throws is an error object, so
  \<open>errorAsBaseError || ''\<close> is the error.\<close>

definition transferEther_catch :: "env \<Rightarrow> transferEther_props \<Rightarrow> js_error \<Rightarrow> tx_response act" where
  "transferEther_catch E props error =
     bind (call (ConsoleError error) (Inr ())) (\<lambda>_.
     bind (notify (te_statusHandler props) ((defaultTxStatus E)\<lparr>st_error := True\<rparr>)) (\<lambda>_.
     ret \<lparr>isSuccessful = False, tx_receipt = None, tx_error = Some error\<rparr>))"

text \<open>The \<open>finally\<close> arms a timer of 3000 ms; the reset of the status that the timer
  performs happens after the helper has returned.\<close>

definition transferEther ::
  "env \<Rightarrow> transferEther_props \<Rightarrow> transferEther_props heap \<times> tx_response act" where
  "transferEther E props =
     exec props (lift (
      bind (assertAddress E (te_receiverAddress props) (Some ''receiverAddress'')) (\<lambda>_.
      bind (notify (te_statusHandler props) ((defaultTxStatus E)\<lparr>st_pending := True\<rparr>)) (\<lambda>_.
      bind (call (ToWagmiProvider (te_connector props)) (toWagmiProvider E (te_connector props))) (\<lambda>wagmiProvider.
      bind (assertAddress E (wp_address wagmiProvider) (Some ''userAddress'')) (\<lambda>_.
      finally_do
        (try_catch (transferEther_try E props wagmiProvider) (transferEther_catch E props))
        [SetTimeout 3000]))))))"

section \<open>The disperse helpers\<close>

text \<open>\<open>for (const receiver of props.receivers) assertAddress(receiver, receiver)\<close>.\<close>

fun assertReceivers :: "env \<Rightarrow> string list \<Rightarrow> unit act" where
  "assertReceivers E [] = ret ()"
| "assertReceivers E (receiver # rest) =
     bind (assertAddress E (Some receiver) (Some receiver)) (\<lambda>_. assertReceivers E rest)"

text \<open>\<open>for (const amount of props.amounts) assert(amount > 0n, ...)\<close>.\<close>

fun assertAmounts :: "int list \<Rightarrow> unit act" where
  "assertAmounts [] = ret ()"
| "assertAmounts (amount # rest) =
     bind (assert (amount > 0) ''amount must be greater than 0'') (\<lambda>_. assertAmounts rest)"

definition disperseETH ::
  "env \<Rightarrow> disperseETH_props \<Rightarrow> disperseETH_props heap \<times> tx_response act" where
  "disperseETH E props =
     exec props (
      after (assertAddress E (contractAddress props) None) (\<lambda>_.
      after (assertReceivers E (de_receivers props)) (\<lambda>_.
      after (assertAmounts (de_amounts props)) (\<lambda>_.
      after (assert (length (de_receivers props) = length (de_amounts props))
               ''receivers and amounts must be the same length'') (\<lambda>_.
      callHandleTx E
        \<lparr>call_address = contractAddress props, call_abi = DISPERSE_ABI,
         functionName = ''disperseEther'',
         args = [AddrList (de_receivers props), UIntList (de_amounts props)],
         call_value = Some (foldl (\<lambda>a b. a + b) 0 (de_amounts props))\<rparr>)))))"

definition disperseERC20 ::
  "env \<Rightarrow> disperseERC20_props \<Rightarrow> disperseERC20_props heap \<times> tx_response act" where
  "disperseERC20 E props =
     exec props (
      after (assertAddress E (d20_tokenToDisperse props) (Some ''The tokenToDisperse'')) (\<lambda>_.
      after (assertAddress E (contractAddress props) None) (\<lambda>_.
      after (assertReceivers E (d20_receivers props)) (\<lambda>_.
      after (assertAmounts (d20_amounts props)) (\<lambda>_.
      after (assert (length (d20_receivers props) = length (d20_amounts props))
               ''receivers and amounts must be the same length'') (\<lambda>_.
      callHandleTx E
        \<lparr>call_address = contractAddress props, call_abi = DISPERSE_ABI,
         functionName = ''disperseToken'',
         args = [Addr (d20_tokenToDisperse props), AddrList (d20_receivers props),
                 UIntList (d20_amounts props)],
         call_value = None\<rparr>))))))"

section \<open>Observations on a run\<close>

text \<open>The request object and the bindings of the module when the helper has ended.\<close>

definition props_after :: "'p heap \<times> 'a act \<Rightarrow> 'p" where
  "props_after r = request (fst r)"

definition module_after :: "'p heap \<times> 'a act \<Rightarrow> module_state" where
  "module_after r = module_bindings (fst r)"

definition trace :: "'h \<times> 'a act \<Rightarrow> event list" where
  "trace r = fst (snd r)"

definition outcome :: "'h \<times> 'a act \<Rightarrow> js_error + 'a" where
  "outcome r = snd (snd r)"

text \<open>The contract function a collaborator call names, if it names one.\<close>

fun event_names :: "event \<Rightarrow> string list" where
  "event_names (ReadContract _ c) = [functionName c]"
| "event_names (HandleTx _ c) = [functionName c]"
| "event_names _ = []"

definition called_names :: "event list \<Rightarrow> string set" where
  "called_names tr = set (concat (map event_names tr))"

text \<open>The values given to \<open>prepareSendTransaction\<close>, in order.\<close>

fun prepared_value :: "event \<Rightarrow> int list" where
  "prepared_value (PrepareSendTransaction _ _ v) = [v]"
| "prepared_value _ = []"

definition prepared_values :: "event list \<Rightarrow> int list" where
  "prepared_values tr = concat (map prepared_value tr)"

text \<open>The token ids paired with their balances, position by position, where the balance
  is positive.\<close>

definition positive_pairs :: "int list \<Rightarrow> int list \<Rightarrow> (int \<times> int) list" where
  "positive_pairs tokenIDs balances = filter (\<lambda>(t, b). 0 < b) (zip tokenIDs balances)"

text \<open>What the two disperse helpers check of their lists.\<close>

definition batch_ok :: "env \<Rightarrow> string list \<Rightarrow> int list \<Rightarrow> bool" where
  "batch_ok E receivers amounts \<longleftrightarrow>
     list_all (\<lambda>r. addressOk E (Some r)) receivers \<and> list_all (\<lambda>a. 0 < a) amounts \<and>
     length receivers = length amounts"

text \<open>The function names of section 6 of the specification.\<close>

definition spec_names :: "string set" where
  "spec_names = {''transfer'', ''approve'', ''setApprovalForAll'', ''safeTransferFrom'',
     ''safeBatchTransferFrom'', ''balanceOfBatch'', ''migrate'', ''disperseEther'',
     ''disperseToken''}"

text \<open>The contract function names that a helper names in some run, in some environment
  and for some request.\<close>

definition names_of :: "(env \<Rightarrow> 'p \<Rightarrow> 'p heap \<times> 'a act) \<Rightarrow> string set" where
  "names_of helper = (\<Union>E p. called_names (trace (helper E p)))"

text \<open>The same for every helper of the module and for the closure of \<open>approveERC20\<close>.\<close>

definition module_names :: "string set" where
  "module_names =
     names_of isApprovedERC20 \<union> names_of approveERC20 \<union>
     names_of approveERC20_onTrySomethingElse \<union>
     names_of approveAllERC721 \<union> names_of transferERC721 \<union> names_of batchTransferERC721 \<union>
     names_of transferERC1155 \<union> names_of listERC1155 \<union> names_of transferERC20 \<union>
     names_of transferEther \<union> names_of disperseETH \<union> names_of disperseERC20"

text \<open>The descriptors that the disperse helpers are shown to hand to \<open>handleTx\<close>.\<close>

definition disperseEther_call :: "disperseETH_props \<Rightarrow> contract_call" where
  "disperseEther_call props =
     \<lparr>call_address = contractAddress props, call_abi = DISPERSE_ABI,
      functionName = ''disperseEther'',
      args = [AddrList (de_receivers props), UIntList (de_amounts props)],
      call_value = Some (sum_list (de_amounts props))\<rparr>"

definition disperseToken_call :: "disperseERC20_props \<Rightarrow> contract_call" where
  "disperseToken_call props =
     \<lparr>call_address = contractAddress props, call_abi = DISPERSE_ABI,
      functionName = ''disperseToken'',
      args = [Addr (d20_tokenToDisperse props), AddrList (d20_receivers props),
              UIntList (d20_amounts props)],
      call_value = None\<rparr>"

section \<open>A concrete environment and concrete requests\<close>

text \<open>Addresses: 20 bytes in hexadecimal.\<close>

definition contract_addr :: string where
  "contract_addr = ''0x1111111111111111111111111111111111111111''"

definition user_addr :: string where
  "user_addr = ''0x2222222222222222222222222222222222222222''"

definition receiver_addr :: string where
  "receiver_addr = ''0x3333333333333333333333333333333333333333''"

definition spender_addr :: string where
  "spender_addr = ''0x4444444444444444444444444444444444444444''"

definition token_addr :: string where
  "token_addr = ''0x5555555555555555555555555555555555555555''"

definition collection_addr :: string where
  "collection_addr = ''0x6666666666666666666666666666666666666666''"

definition alice_addr :: string where
  "alice_addr = ''0xaaaaaaaaaaaaaaaaaaaaaaaaaaaaaaaaaaaaaaaa''"

definition bob_addr :: string where
  "bob_addr = ''0xbbbbbbbbbbbbbbbbbbbbbbbbbbbbbbbbbbbbbbbb''"

definition zero_addr :: string where
  "zero_addr = ''0x0000000000000000000000000000000000000000''"

definition demo_provider :: wagmiProvider where
  "demo_provider = \<lparr>wp_chainId = 1, wp_address = Some user_addr\<rparr>"

definition demo_receipt :: receipt where
  "demo_receipt = \<lparr>rc_status = ''success'', rc_hash = ''0xhash''\<rparr>"

definition demo_response :: tx_response where
  "demo_response = \<lparr>isSuccessful = True, tx_receipt = Some demo_receipt, tx_error = None\<rparr>"

definition demo_status :: tx_status where
  "demo_status = \<lparr>st_none = True, st_pending = False, st_success = False, st_error = False\<rparr>"

text \<open>An environment in which an address is accepted when it has the shape of an address
  and is not the zero address, the account holds balances \<open>[0, 3, 0, 7]\<close> and an
  allowance of 5, the gas price is 2, every transaction succeeds, \<open>handleTx\<close> leaves the
  object it is given as it is, and \<open>MAX_UINT_256\<close> is \<open>2 ^ 256 - 1\<close>.\<close>

definition demo_env :: env where
  "demo_env =
     \<lparr>addressOk = (\<lambda>a. case a of None \<Rightarrow> False
                       | Some s \<Rightarrow> length s = 42 \<and> take 2 s = ''0x'' \<and> s \<noteq> zero_addr),
      toWagmiProvider = (\<lambda>_. Inr demo_provider),
      readUint = (\<lambda>_ _. Inr 5),
      readUintList = (\<lambda>_ _. Inr [0, 3, 0, 7]),
      handleTx = (\<lambda>w _. (w, Inr demo_response)),
      prepareSendTransaction = (\<lambda>_ to v.
        Inr \<lparr>cfg_to = to, cfg_value = v, cfg_gas = Some 21000, cfg_maxPriorityFeePerGas = None\<rparr>),
      getPublicClient = (\<lambda>chain. Inr chain),
      getGasPrice = (\<lambda>_. Inr 2),
      sendTransaction = (\<lambda>_. Inr ''0xhash''),
      waitForTransaction = (\<lambda>_ _. Inr demo_receipt),
      defaultTxStatus = demo_status,
      MAX_UINT_256 = 2 ^ 256 - 1\<rparr>"

text \<open>The same, with a wallet that rejects every transaction it is asked to send.\<close>

definition rejecting_env :: env where
  "rejecting_env = demo_env\<lparr>sendTransaction := (\<lambda>_. Inl (LibraryError ''User rejected the request''))\<rparr>"

text \<open>The same, with a transaction that is mined and reverted.\<close>

definition reverted_receipt :: receipt where
  "reverted_receipt = \<lparr>rc_status = ''reverted'', rc_hash = ''0xhash''\<rparr>"

definition reverting_env :: env where
  "reverting_env = demo_env\<lparr>waitForTransaction := (\<lambda>_ _. Inr reverted_receipt)\<rparr>"

text \<open>The same, with a \<open>handleTx\<close> that clears the status callback of the object it is
  given.\<close>

definition meddling_env :: env where
  "meddling_env = demo_env\<lparr>handleTx := (\<lambda>w _. (w\<lparr>statusHandler := None\<rparr>, Inr demo_response))\<rparr>"

definition demo_write :: writeTransaction where
  "demo_write = \<lparr>connector = Some (Connector 0), contractAddress = Some contract_addr,
     statusHandler = Some (Callback 0), onTrySomethingElse = None\<rparr>"

definition demo_isApproved :: isApprovedERC20_props where
  "demo_isApproved = \<lparr>ia_connector = Some (Connector 0), ia_contractAddress = token_addr,
     ia_spenderAddress = spender_addr, ia_amount = Some 4\<rparr>"

definition demo_approve :: approveERC20_props where
  "demo_approve = \<lparr>connector = Some (Connector 0), contractAddress = Some contract_addr,
     statusHandler = Some (Callback 0), onTrySomethingElse = None,
     ap_spenderAddress = Some spender_addr, ap_amount = 10\<rparr>"

definition demo_approveAll :: approveAllERC721_props where
  "demo_approveAll = \<lparr>connector = Some (Connector 0), contractAddress = Some contract_addr,
     statusHandler = Some (Callback 0), onTrySomethingElse = None,
     aa_spenderAddress = Some spender_addr, aa_shouldAllow = True\<rparr>"

definition demo_transferERC721 :: transferERC721_props where
  "demo_transferERC721 = \<lparr>connector = Some (Connector 0), contractAddress = Some contract_addr,
     statusHandler = Some (Callback 0), onTrySomethingElse = None,
     t721_receiverAddress = Some receiver_addr, t721_tokenID = 42\<rparr>"

definition demo_batchTransferERC721 :: batchTransferERC721_props where
  "demo_batchTransferERC721 = \<lparr>connector = Some (Connector 0), contractAddress = Some contract_addr,
     statusHandler = Some (Callback 0), onTrySomethingElse = None,
     bt_collectionAddress = Some collection_addr, bt_receiverAddress = Some receiver_addr,
     bt_tokenIDs = [1, 2]\<rparr>"

definition demo_transferERC20 :: transferERC20_props where
  "demo_transferERC20 = \<lparr>connector = Some (Connector 0), contractAddress = Some contract_addr,
     statusHandler = Some (Callback 0), onTrySomethingElse = None,
     t20_receiverAddress = Some receiver_addr, t20_amount = 10\<rparr>"

definition demo_transferERC1155 :: transferERC1155_props where
  "demo_transferERC1155 = \<lparr>connector = Some (Connector 0), contractAddress = Some contract_addr,
     statusHandler = Some (Callback 0), onTrySomethingElse = None,
     t1155_receiverAddress = Some receiver_addr, t1155_tokenIDs = [11, 12, 13, 14]\<rparr>"

definition demo_listERC1155 :: listERC1155_props where
  "demo_listERC1155 = \<lparr>connector = Some (Connector 0), contractAddress = Some contract_addr,
     statusHandler = Some (Callback 0), onTrySomethingElse = None,
     l1155_tokenIDs = [11, 12, 13, 14]\<rparr>"

definition demo_transferEther :: transferEther_props where
  "demo_transferEther = \<lparr>te_connector = Some (Connector 0), te_statusHandler = Some (Callback 0),
     te_onTrySomethingElse = None, te_receiverAddress = Some receiver_addr,
     te_amount = 1000000, te_shouldAdjustForGas = Some True\<rparr>"

definition demo_disperseETH :: disperseETH_props where
  "demo_disperseETH = \<lparr>connector = Some (Connector 0), contractAddress = Some contract_addr,
     statusHandler = Some (Callback 0), onTrySomethingElse = None,
     de_receivers = [alice_addr, bob_addr], de_amounts = [5, 7]\<rparr>"

definition empty_disperseETH :: disperseETH_props where
  "empty_disperseETH = \<lparr>connector = Some (Connector 0), contractAddress = Some contract_addr,
     statusHandler = Some (Callback 0), onTrySomethingElse = None,
     de_receivers = [], de_amounts = []\<rparr>"

definition demo_disperseERC20 :: disperseERC20_props where
  "demo_disperseERC20 = \<lparr>connector = Some (Connector 0), contractAddress = Some contract_addr,
     statusHandler = Some (Callback 0), onTrySomethingElse = None,
     d20_tokenToDisperse = Some token_addr, d20_receivers = [alice_addr, bob_addr],
     d20_amounts = [5, 7]\<rparr>"

section \<open>Sequencing, and the observations on a run\<close>

text \<open>The three combinators in terms of the events and the outcome of their first part.\<close>

lemma bind_split:
  "bind m f =
     (case snd m of Inl e \<Rightarrow> (fst m, Inl e) | Inr x \<Rightarrow> (fst m @ fst (f x), snd (f x)))"
  by (cases m) (simp add: bind_def split: sum.splits prod.splits)

lemma try_catch_split:
  "try_catch m h =
     (case snd m of Inl e \<Rightarrow> (fst m @ fst (h e), snd (h e)) | Inr x \<Rightarrow> (fst m, Inr x))"
  by (cases m) (simp add: try_catch_def split: sum.splits prod.splits)

lemma finally_do_split: "finally_do m k = (fst m @ k, snd m)"
  by (cases m) (simp add: finally_do_def)

lemma after_split:
  "after m f h =
     (case snd m of
        Inl e \<Rightarrow> (h, fst m, Inl e)
      | Inr x \<Rightarrow> (fst (f x h), fst m @ fst (snd (f x h)), snd (snd (f x h))))"
  by (cases m) (simp add: after_def split: sum.splits prod.splits)

lemma callHandleTx_split:
  "callHandleTx E c h =
     (h\<lparr>request := overwrite (request h) (fst (handleTx E (writeTransaction.truncate (request h)) c))\<rparr>,
      [HandleTx (writeTransaction.truncate (request h)) c],
      snd (handleTx E (writeTransaction.truncate (request h)) c))"
  by (simp add: callHandleTx_def split: prod.splits)

text \<open>An object overwritten with its own fields is the object.\<close>

lemma overwrite_truncate [simp]: "overwrite p (writeTransaction.truncate p) = p"
  by (simp add: overwrite_def writeTransaction.truncate_def)

lemmas core_defs = Let_def ret_def throw_def call_def assert_def assertAddress_def

lemmas heap_defs = exec_def lift_def after_split callHandleTx_split set_request_def
  with_request_def

lemmas act_defs = core_defs heap_defs notify_def trace_def outcome_def props_after_def
  module_after_def

lemma called_names_simps [simp]:
  "called_names [] = {}"
  "called_names (ev # tr) = set (event_names ev) \<union> called_names tr"
  "called_names (tr @ tr') = called_names tr \<union> called_names tr'"
  by (auto simp: called_names_def)

lemma prepared_values_simps [simp]:
  "prepared_values [] = []"
  "prepared_values (ev # tr) = prepared_value ev @ prepared_values tr"
  "prepared_values (tr @ tr') = prepared_values tr @ prepared_values tr'"
  by (simp_all add: prepared_values_def)

lemma notify_names [simp]: "called_names (fst (notify h s)) = {}"
  by (simp add: act_defs split: option.splits)

lemma notify_prepared [simp]: "prepared_values (fst (notify h s)) = []"
  by (simp add: act_defs split: option.splits)

lemma notify_returns [simp]: "snd (notify h s) = Inr ()"
  by (simp add: act_defs split: option.splits)

lemma notify_events:
  "fst (notify h s) = (case h of None \<Rightarrow> [] | Some cb \<Rightarrow> [StatusHandler cb s])"
  by (simp add: notify_def core_defs split: option.splits)

lemmas demo_defs = demo_env_def demo_provider_def demo_receipt_def demo_response_def
  demo_status_def demo_write_def reverted_receipt_def reverting_env_def meddling_env_def contract_addr_def user_addr_def receiver_addr_def
  spender_addr_def token_addr_def collection_addr_def alice_addr_def bob_addr_def zero_addr_def

section \<open>The ERC1155 helpers\<close>

text \<open>The loop from index \<open>i\<close> appends, to what it has built, the positive pairs at
  positions \<open>i\<close> and above.\<close>

lemma filterLoop_drop:
  "filterLoop ts bs i ids amts =
     (ids @ map fst (filter (\<lambda>(t, b). 0 < b) (drop i (zip ts bs))),
      amts @ map snd (filter (\<lambda>(t, b). 0 < b) (drop i (zip ts bs))))"
proof (induction ts bs i ids amts rule: filterLoop.induct)
  case (1 ts bs i ids amts)
  show ?case
  proof (cases "i < length ts")
    case False
    then show ?thesis by (simp add: filterLoop.simps [of ts bs i])
  next
    case True
    show ?thesis
    proof (cases "i < length bs")
      case False
      with True 1(1) show ?thesis
        by (simp add: filterLoop.simps [of ts bs i] at_def)
    next
      case inb: True
      have d: "drop i (zip ts bs) = (ts ! i, bs ! i) # drop (Suc i) (zip ts bs)"
        using True inb by (simp add: Cons_nth_drop_Suc [symmetric])
      show ?thesis
      proof (cases "0 < bs ! i")
        case True
        with \<open>i < length ts\<close> inb 1(2) [of "bs ! i"] d show ?thesis
          by (simp add: filterLoop.simps [of ts bs i] at_def)
      next
        case False
        with \<open>i < length ts\<close> inb 1(3) [of "bs ! i"] d show ?thesis
          by (simp add: filterLoop.simps [of ts bs i] at_def)
      qed
    qed
  qed
qed

lemma filterLoop_start:
  "filterLoop ts bs 0 [] [] = (map fst (positive_pairs ts bs), map snd (positive_pairs ts bs))"
  by (simp add: filterLoop_drop positive_pairs_def)

text \<open>Every run of the two helpers, branch by branch.\<close>

lemma transferERC1155_run:
  "snd (transferERC1155 E props) =
     (if \<not> addressOk E (t1155_receiverAddress props) then ([], Inl (AddressError (Some ''Receiver address'')))
      else if \<not> addressOk E (contractAddress props) then ([], Inl (AddressError (Some ''Contract address'')))
      else case toWagmiProvider E (connector props) of
        Inl e \<Rightarrow> ([ToWagmiProvider (connector props)], Inl e)
      | Inr wp \<Rightarrow>
          if \<not> addressOk E (wp_address wp) then
            ([ToWagmiProvider (connector props)], Inl (AddressError (Some ''User address'')))
          else
            let c = balanceOfBatch_call (contractAddress props) (wp_address wp) (t1155_tokenIDs props)
            in (case readUintList E wp c of
              Inl e \<Rightarrow> ([ToWagmiProvider (connector props), ReadContract wp c], Inl e)
            | Inr bs \<Rightarrow>
                if positive_pairs (t1155_tokenIDs props) bs = [] then
                  ([ToWagmiProvider (connector props), ReadContract wp c],
                   Inl (AssertionError ''No tokens to transfer''))
                else
                  let c' = safeBatchTransferFrom_call (contractAddress props) (wp_address wp)
                             (t1155_receiverAddress props)
                             (map fst (positive_pairs (t1155_tokenIDs props) bs))
                             (map snd (positive_pairs (t1155_tokenIDs props) bs))
                  in ([ToWagmiProvider (connector props), ReadContract wp c,
                       HandleTx (writeTransaction.truncate props) c'],
                      snd (handleTx E (writeTransaction.truncate props) c'))))"
  by (simp add: transferERC1155_def act_defs bind_split filterLoop_start split: sum.splits)

lemma listERC1155_run:
  "snd (listERC1155 E props) =
     (if \<not> addressOk E (contractAddress props) then ([], Inl (AddressError (Some ''Contract address'')))
      else case toWagmiProvider E (connector props) of
        Inl e \<Rightarrow> ([ToWagmiProvider (connector props)], Inl e)
      | Inr wp \<Rightarrow>
          if \<not> addressOk E (wp_address wp) then
            ([ToWagmiProvider (connector props)], Inl (AddressError (Some ''User address'')))
          else
            let c = balanceOfBatch_call (contractAddress props) (wp_address wp) (l1155_tokenIDs props)
            in (case readUintList E wp c of
              Inl e \<Rightarrow> ([ToWagmiProvider (connector props), ReadContract wp c], Inl e)
            | Inr bs \<Rightarrow>
                ([ToWagmiProvider (connector props), ReadContract wp c],
                 Inr (map fst (positive_pairs (l1155_tokenIDs props) bs),
                      map snd (positive_pairs (l1155_tokenIDs props) bs)))))"
  by (simp add: listERC1155_def act_defs bind_split filterLoop_start split: sum.splits)

text \<open>
  Claim C1. Whenever \<open>transferERC1155\<close> hands a call to \<open>handleTx\<close>, the run has read
  \<open>balanceOfBatch\<close> for the account and the token ids of the request, and the call is
  \<open>safeBatchTransferFrom\<close> with, as its third and fourth arguments, the token ids of the
  request and the balances read, paired position by position and kept, in order, exactly
  where the balance is greater than 0.
\<close>

theorem transferERC1155_filters:
  assumes "HandleTx p c \<in> set (trace (transferERC1155 E props))"
  shows "\<exists>wp rc bs.
           toWagmiProvider E (connector props) = Inr wp \<and>
           ReadContract wp rc \<in> set (trace (transferERC1155 E props)) \<and>
           functionName rc = ''balanceOfBatch'' \<and>
           args rc = [AddrFill (replicate (length (t1155_tokenIDs props)) (wp_address wp)),
                      UIntList (t1155_tokenIDs props)] \<and>
           readUintList E wp rc = Inr bs \<and>
           functionName c = ''safeBatchTransferFrom'' \<and>
           args c =
             [Addr (wp_address wp), Addr (t1155_receiverAddress props),
              UIntList (map fst (filter (\<lambda>(t, b). 0 < b) (zip (t1155_tokenIDs props) bs))),
              UIntList (map snd (filter (\<lambda>(t, b). 0 < b) (zip (t1155_tokenIDs props) bs))),
              Bytes ''0x''] \<and>
           call_address c = contractAddress props \<and> call_abi c = ERC1155_ABI \<and>
           call_value c = None"
  using assms
  by (auto simp: trace_def transferERC1155_run Let_def positive_pairs_def
      safeBatchTransferFrom_call_def balanceOfBatch_call_def split: if_splits sum.splits)

text \<open>With balances \<open>[0, 3, 0, 7]\<close> for the ids \<open>[11, 12, 13, 14]\<close>, the call carries
  \<open>[12, 14]\<close> and \<open>[3, 7]\<close>.\<close>

theorem transferERC1155_filters_witness:
  "HandleTx demo_write
     \<lparr>call_address = Some contract_addr, call_abi = ERC1155_ABI,
      functionName = ''safeBatchTransferFrom'',
      args = [Addr (Some user_addr), Addr (Some receiver_addr), UIntList [12, 14],
              UIntList [3, 7], Bytes ''0x''],
      call_value = None\<rparr>
     \<in> set (trace (transferERC1155 demo_env demo_transferERC1155)) \<and>
   (\<exists>wp rc bs.
      toWagmiProvider demo_env (connector demo_transferERC1155) = Inr wp \<and>
      ReadContract wp rc \<in> set (trace (transferERC1155 demo_env demo_transferERC1155)) \<and>
      functionName rc = ''balanceOfBatch'' \<and>
      args rc = [AddrFill [wp_address wp, wp_address wp, wp_address wp, wp_address wp],
                 UIntList [11, 12, 13, 14]] \<and>
      readUintList demo_env wp rc = Inr bs \<and>
      Some user_addr = wp_address wp \<and>
      [12, 14] = map fst (filter (\<lambda>(t, b). 0 < b) (zip [11, 12, 13, 14 :: int] bs)) \<and>
      [3, 7] = map snd (filter (\<lambda>(t, b). 0 < b) (zip [11, 12, 13, 14 :: int] bs)))"
proof -
  have mem: "HandleTx demo_write
     \<lparr>call_address = Some contract_addr, call_abi = ERC1155_ABI,
      functionName = ''safeBatchTransferFrom'',
      args = [Addr (Some user_addr), Addr (Some receiver_addr), UIntList [12, 14],
              UIntList [3, 7], Bytes ''0x''],
      call_value = None\<rparr>
     \<in> set (trace (transferERC1155 demo_env demo_transferERC1155))"
    by (simp add: trace_def transferERC1155_run demo_defs demo_transferERC1155_def
        positive_pairs_def safeBatchTransferFrom_call_def writeTransaction.truncate_def)
  from transferERC1155_filters [OF mem] mem show ?thesis
    by (simp add: demo_transferERC1155_def)
qed

lemma subseq_positive_ids: "subseq (map fst (positive_pairs ts bs)) ts"
proof -
  have "subseq (map fst (filter (\<lambda>(t, b). 0 < b) (zip ts bs))) (map fst (zip ts bs))"
    by (intro subseq_map subseq_filter_left)
  also have "subseq (map fst (zip ts bs)) ts"
    by (induction ts arbitrary: bs) (auto simp: zip_Cons1 split: list.splits)
  finally show ?thesis by (simp add: positive_pairs_def)
qed

lemma positive_amounts: "a \<in> set (map snd (positive_pairs ts bs)) \<Longrightarrow> 0 < a"
  by (auto simp: positive_pairs_def)

text \<open>
  Claim C10. When \<open>listERC1155\<close> returns, its two arrays have the same length, every
  amount is greater than 0 and the ids are a subsequence of the ids of the request. When no
  balance is positive it returns two empty arrays, where \<open>transferERC1155\<close> on the same
  contract, connector and ids throws \<open>No tokens to transfer\<close>.
\<close>

theorem listERC1155_result:
  "(\<forall>ids amts. outcome (listERC1155 E props) = Inr (ids, amts) \<longrightarrow>
      length ids = length amts \<and> (\<forall>a \<in> set amts. 0 < a) \<and> subseq ids (l1155_tokenIDs props)) \<and>
   (\<forall>wp bs tprops.
      addressOk E (contractAddress props) \<and> toWagmiProvider E (connector props) = Inr wp \<and>
      addressOk E (wp_address wp) \<and>
      readUintList E wp
        (balanceOfBatch_call (contractAddress props) (wp_address wp) (l1155_tokenIDs props)) = Inr bs \<and>
      positive_pairs (l1155_tokenIDs props) bs = [] \<and>
      connector tprops = connector props \<and> contractAddress tprops = contractAddress props \<and>
      t1155_tokenIDs tprops = l1155_tokenIDs props \<and> addressOk E (t1155_receiverAddress tprops) \<longrightarrow>
      outcome (listERC1155 E props) = Inr ([], []) \<and>
      outcome (transferERC1155 E tprops) = Inl (AssertionError ''No tokens to transfer''))"
proof (intro conjI allI impI)
  fix ids amts
  assume r: "outcome (listERC1155 E props) = Inr (ids, amts)"
  then obtain bs where ids: "ids = map fst (positive_pairs (l1155_tokenIDs props) bs)"
    and amts: "amts = map snd (positive_pairs (l1155_tokenIDs props) bs)"
    by (auto simp: outcome_def listERC1155_run Let_def split: if_splits sum.splits)
  show "length ids = length amts" by (simp add: ids amts)
  show "\<forall>a \<in> set amts. 0 < a" using positive_amounts by (auto simp: amts)
  show "subseq ids (l1155_tokenIDs props)" by (simp add: ids subseq_positive_ids)
next
  fix wp bs and tprops :: transferERC1155_props
  assume a: "addressOk E (contractAddress props) \<and> toWagmiProvider E (connector props) = Inr wp \<and>
      addressOk E (wp_address wp) \<and>
      readUintList E wp
        (balanceOfBatch_call (contractAddress props) (wp_address wp) (l1155_tokenIDs props)) = Inr bs \<and>
      positive_pairs (l1155_tokenIDs props) bs = [] \<and>
      connector tprops = connector props \<and> contractAddress tprops = contractAddress props \<and>
      t1155_tokenIDs tprops = l1155_tokenIDs props \<and> addressOk E (t1155_receiverAddress tprops)"
  then show "outcome (listERC1155 E props) = Inr ([], [])"
    by (simp add: outcome_def listERC1155_run)
  from a show "outcome (transferERC1155 E tprops) = Inl (AssertionError ''No tokens to transfer'')"
    by (simp add: outcome_def transferERC1155_run)
qed

text \<open>Both parts at concrete requests: balances \<open>[0, 3, 0, 7]\<close>, then balances all 0.\<close>

theorem listERC1155_result_witness:
  "outcome (listERC1155 demo_env demo_listERC1155) = Inr ([12, 14], [3, 7]) \<and>
   length [12, 14 :: int] = length [3, 7 :: int] \<and>
   list_all (\<lambda>a. 0 < a) [3, 7 :: int] \<and>
   subseq [12, 14] (l1155_tokenIDs demo_listERC1155) \<and>
   positive_pairs (l1155_tokenIDs demo_listERC1155) [0, 0, 0, 0] = [] \<and>
   outcome (listERC1155 (demo_env\<lparr>readUintList := (\<lambda>_ _. Inr [0, 0, 0, 0])\<rparr>) demo_listERC1155) =
     Inr ([], []) \<and>
   outcome (transferERC1155 (demo_env\<lparr>readUintList := (\<lambda>_ _. Inr [0, 0, 0, 0])\<rparr>)
     demo_transferERC1155) = Inl (AssertionError ''No tokens to transfer'')"
proof -
  have r: "outcome (listERC1155 demo_env demo_listERC1155) = Inr ([12, 14], [3, 7])"
    by (simp add: outcome_def listERC1155_run demo_defs demo_listERC1155_def positive_pairs_def)
  have z: "positive_pairs (l1155_tokenIDs demo_listERC1155) [0, 0, 0, 0] = []"
    by (simp add: demo_listERC1155_def positive_pairs_def)
  have pre: "addressOk (demo_env\<lparr>readUintList := (\<lambda>_ _. Inr [0, 0, 0, 0])\<rparr>)
        (contractAddress demo_listERC1155) \<and>
      toWagmiProvider (demo_env\<lparr>readUintList := (\<lambda>_ _. Inr [0, 0, 0, 0])\<rparr>)
        (connector demo_listERC1155) = Inr demo_provider \<and>
      addressOk (demo_env\<lparr>readUintList := (\<lambda>_ _. Inr [0, 0, 0, 0])\<rparr>) (wp_address demo_provider) \<and>
      readUintList (demo_env\<lparr>readUintList := (\<lambda>_ _. Inr [0, 0, 0, 0])\<rparr>) demo_provider
        (balanceOfBatch_call (contractAddress demo_listERC1155) (wp_address demo_provider)
           (l1155_tokenIDs demo_listERC1155)) = Inr [0, 0, 0, 0] \<and>
      connector demo_transferERC1155 = connector demo_listERC1155 \<and>
      contractAddress demo_transferERC1155 = contractAddress demo_listERC1155 \<and>
      t1155_tokenIDs demo_transferERC1155 = l1155_tokenIDs demo_listERC1155 \<and>
      addressOk (demo_env\<lparr>readUintList := (\<lambda>_ _. Inr [0, 0, 0, 0])\<rparr>)
        (t1155_receiverAddress demo_transferERC1155)"
    by (simp add: demo_defs demo_listERC1155_def demo_transferERC1155_def)
  note a = listERC1155_result [of demo_env demo_listERC1155, THEN conjunct1, rule_format, OF r]
  note b = listERC1155_result [of "demo_env\<lparr>readUintList := (\<lambda>_ _. Inr [0, 0, 0, 0])\<rparr>"
      demo_listERC1155, THEN conjunct2, rule_format,
      of demo_provider "[0, 0, 0, 0]" demo_transferERC1155]
  from a b r z pre show ?thesis by (simp add: list_all_iff)
qed

section \<open>The disperse helpers: the checks and the call\<close>

text \<open>The two loops of checks return without an event when every element passes, and throw
  without an event otherwise.\<close>

lemma assertReceivers_ok:
  "list_all (\<lambda>r. addressOk E (Some r)) rs \<Longrightarrow> assertReceivers E rs = ([], Inr ())"
  by (induction rs) (simp_all add: act_defs bind_split)

lemma assertReceivers_bad:
  "\<not> list_all (\<lambda>r. addressOk E (Some r)) rs \<Longrightarrow> \<exists>e. assertReceivers E rs = ([], Inl e)"
  by (induction rs) (auto simp: act_defs bind_split)

lemma assertAmounts_ok:
  "list_all (\<lambda>a. 0 < a) as \<Longrightarrow> assertAmounts as = ([], Inr ())"
  by (induction as) (simp_all add: act_defs bind_split)

lemma assertAmounts_bad:
  "\<not> list_all (\<lambda>a. 0 < a) as \<Longrightarrow> \<exists>e. assertAmounts as = ([], Inl e)"
  by (induction as) (auto simp: act_defs bind_split)

text \<open>The first element that fails decides what the loops throw.\<close>

lemma assertReceivers_run:
  "assertReceivers E rs =
     (case find (\<lambda>r. \<not> addressOk E (Some r)) rs of
        None \<Rightarrow> ([], Inr ())
      | Some r \<Rightarrow> ([], Inl (AddressError (Some r))))"
  by (induction rs) (simp_all add: core_defs bind_split)

lemma assertAmounts_run:
  "assertAmounts as =
     (if list_all (\<lambda>a. 0 < a) as then ([], Inr ())
      else ([], Inl (AssertionError ''amount must be greater than 0'')))"
  by (induction as) (simp_all add: core_defs bind_split)

lemma find_refused_None:
  "find (\<lambda>r. \<not> addressOk E (Some r)) rs = None \<longleftrightarrow> list_all (\<lambda>r. addressOk E (Some r)) rs"
  by (auto simp: find_None_iff list_all_iff)

text \<open>\<open>amounts.reduce((a, b) => a + b, 0n)\<close> is the sum.\<close>

lemma foldl_add: "foldl (\<lambda>a b. a + b) (s :: int) xs = s + sum_list xs"
  by (induction xs arbitrary: s) simp_all

lemma disperseETH_valid:
  assumes "addressOk E (contractAddress props)" "batch_ok E (de_receivers props) (de_amounts props)"
  shows "snd (disperseETH E props) =
           ([HandleTx (writeTransaction.truncate props) (disperseEther_call props)],
            snd (handleTx E (writeTransaction.truncate props) (disperseEther_call props)))"
  using assms
  by (simp add: disperseETH_def batch_ok_def assertReceivers_ok assertAmounts_ok act_defs
      bind_split foldl_add disperseEther_call_def)

lemma disperseETH_invalid:
  assumes "\<not> (addressOk E (contractAddress props) \<and> batch_ok E (de_receivers props) (de_amounts props))"
  shows "\<exists>e. snd (disperseETH E props) = ([], Inl e)"
proof (cases "addressOk E (contractAddress props)")
  case False
  then show ?thesis by (simp add: disperseETH_def act_defs bind_split)
next
  case c: True
  show ?thesis
  proof (cases "list_all (\<lambda>r. addressOk E (Some r)) (de_receivers props)")
    case False
    from assertReceivers_bad [OF this] c show ?thesis
      by (auto simp: disperseETH_def act_defs bind_split)
  next
    case r: True
    show ?thesis
    proof (cases "list_all (\<lambda>a. 0 < a) (de_amounts props)")
      case False
      from assertAmounts_bad [OF this] c r show ?thesis
        by (auto simp: disperseETH_def act_defs bind_split assertReceivers_ok)
    next
      case True
      with assms c r show ?thesis
        by (simp add: disperseETH_def act_defs bind_split assertReceivers_ok assertAmounts_ok
            batch_ok_def)
    qed
  qed
qed

lemma disperseERC20_valid:
  assumes "addressOk E (d20_tokenToDisperse props)" "addressOk E (contractAddress props)"
    "batch_ok E (d20_receivers props) (d20_amounts props)"
  shows "snd (disperseERC20 E props) =
           ([HandleTx (writeTransaction.truncate props) (disperseToken_call props)],
            snd (handleTx E (writeTransaction.truncate props) (disperseToken_call props)))"
  using assms
  by (simp add: disperseERC20_def batch_ok_def assertReceivers_ok assertAmounts_ok act_defs
      bind_split disperseToken_call_def)

lemma disperseERC20_invalid:
  assumes "\<not> (addressOk E (d20_tokenToDisperse props) \<and> addressOk E (contractAddress props) \<and>
             batch_ok E (d20_receivers props) (d20_amounts props))"
  shows "\<exists>e. snd (disperseERC20 E props) = ([], Inl e)"
proof (cases "addressOk E (d20_tokenToDisperse props) \<and> addressOk E (contractAddress props)")
  case False
  then show ?thesis by (auto simp: disperseERC20_def act_defs bind_split)
next
  case c: True
  show ?thesis
  proof (cases "list_all (\<lambda>r. addressOk E (Some r)) (d20_receivers props)")
    case False
    from assertReceivers_bad [OF this] c show ?thesis
      by (auto simp: disperseERC20_def act_defs bind_split)
  next
    case r: True
    show ?thesis
    proof (cases "list_all (\<lambda>a. 0 < a) (d20_amounts props)")
      case False
      from assertAmounts_bad [OF this] c r show ?thesis
        by (auto simp: disperseERC20_def act_defs bind_split assertReceivers_ok)
    next
      case True
      with assms c r show ?thesis
        by (simp add: disperseERC20_def act_defs bind_split assertReceivers_ok assertAmounts_ok
            batch_ok_def)
    qed
  qed
qed

text \<open>
  Claim C2. Whenever \<open>disperseETH\<close> hands a call to \<open>handleTx\<close> (that is, whenever its
  checks pass), the call is \<open>disperseEther\<close>, the value attached is the sum of the amounts,
  the receivers and amounts are those of the request, and it is the only event of the run.
\<close>

theorem disperseETH_value:
  assumes "HandleTx p c \<in> set (trace (disperseETH E props))"
  shows "functionName c = ''disperseEther'' \<and>
         call_value c = Some (sum_list (de_amounts props)) \<and>
         args c = [AddrList (de_receivers props), UIntList (de_amounts props)] \<and>
         trace (disperseETH E props) = [HandleTx p c]"
proof (cases "addressOk E (contractAddress props) \<and> batch_ok E (de_receivers props) (de_amounts props)")
  case True
  with assms show ?thesis
    by (simp add: trace_def disperseETH_valid disperseEther_call_def)
next
  case False
  from disperseETH_invalid [OF this] assms show ?thesis
    by (auto simp: trace_def)
qed

text \<open>Two receivers with amounts 5 and 7: the value is 12.\<close>

theorem disperseETH_value_witness:
  "HandleTx demo_write (disperseEther_call demo_disperseETH)
     \<in> set (trace (disperseETH demo_env demo_disperseETH)) \<and>
   functionName (disperseEther_call demo_disperseETH) = ''disperseEther'' \<and>
   call_value (disperseEther_call demo_disperseETH) = Some 12 \<and>
   args (disperseEther_call demo_disperseETH) = [AddrList [alice_addr, bob_addr], UIntList [5, 7]] \<and>
   trace (disperseETH demo_env demo_disperseETH) =
     [HandleTx demo_write (disperseEther_call demo_disperseETH)]"
proof -
  have mem: "HandleTx demo_write (disperseEther_call demo_disperseETH)
     \<in> set (trace (disperseETH demo_env demo_disperseETH))"
    by (simp add: trace_def disperseETH_valid batch_ok_def demo_defs demo_disperseETH_def
        writeTransaction.truncate_def)
  from disperseETH_value [OF mem] mem show ?thesis
    by (simp add: demo_disperseETH_def)
qed

text \<open>Every run of the two helpers, check by check.\<close>

lemma disperseETH_run:
  "snd (disperseETH E props) =
     (if \<not> addressOk E (contractAddress props) then ([], Inl (AddressError None))
      else case find (\<lambda>r. \<not> addressOk E (Some r)) (de_receivers props) of
        Some r \<Rightarrow> ([], Inl (AddressError (Some r)))
      | None \<Rightarrow>
          if \<not> list_all (\<lambda>a. 0 < a) (de_amounts props) then
            ([], Inl (AssertionError ''amount must be greater than 0''))
          else if length (de_receivers props) \<noteq> length (de_amounts props) then
            ([], Inl (AssertionError ''receivers and amounts must be the same length''))
          else
            ([HandleTx (writeTransaction.truncate props) (disperseEther_call props)],
             snd (handleTx E (writeTransaction.truncate props) (disperseEther_call props))))"
  by (simp add: disperseETH_def assertReceivers_run assertAmounts_run act_defs foldl_add
      disperseEther_call_def split: option.splits)

lemma disperseERC20_run:
  "snd (disperseERC20 E props) =
     (if \<not> addressOk E (d20_tokenToDisperse props) then
        ([], Inl (AddressError (Some ''The tokenToDisperse'')))
      else if \<not> addressOk E (contractAddress props) then ([], Inl (AddressError None))
      else case find (\<lambda>r. \<not> addressOk E (Some r)) (d20_receivers props) of
        Some r \<Rightarrow> ([], Inl (AddressError (Some r)))
      | None \<Rightarrow>
          if \<not> list_all (\<lambda>a. 0 < a) (d20_amounts props) then
            ([], Inl (AssertionError ''amount must be greater than 0''))
          else if length (d20_receivers props) \<noteq> length (d20_amounts props) then
            ([], Inl (AssertionError ''receivers and amounts must be the same length''))
          else
            ([HandleTx (writeTransaction.truncate props) (disperseToken_call props)],
             snd (handleTx E (writeTransaction.truncate props) (disperseToken_call props))))"
  by (simp add: disperseERC20_def assertReceivers_run assertAmounts_run act_defs
      disperseToken_call_def split: option.splits)

text \<open>
  Claim C3, as amended. \<open>disperseETH\<close> and \<open>disperseERC20\<close> throw, before any event, the
  error of the first check that fails: the address error of \<open>assertAddress\<close> with the name
  it was given (none for the contract, \<open>The tokenToDisperse\<close> for the token, the receiver
  itself for the first receiver refused), then \<open>amount must be greater than 0\<close>, then
  \<open>receivers and amounts must be the same length\<close>. They throw in this way exactly when an
  address is refused, an amount is not greater than 0 or the two lists differ in length.
  Otherwise the call goes to \<open>handleTx\<close>, whose result is the result; this is so for two
  empty lists.
\<close>

theorem disperse_validation:
  "(\<not> addressOk E (contractAddress props) \<longrightarrow>
      snd (disperseETH E props) = ([], Inl (AddressError None))) \<and>
   (\<forall>r. addressOk E (contractAddress props) \<and>
      find (\<lambda>r. \<not> addressOk E (Some r)) (de_receivers props) = Some r \<longrightarrow>
      snd (disperseETH E props) = ([], Inl (AddressError (Some r)))) \<and>
   (addressOk E (contractAddress props) \<and>
      list_all (\<lambda>r. addressOk E (Some r)) (de_receivers props) \<and>
      \<not> list_all (\<lambda>a. 0 < a) (de_amounts props) \<longrightarrow>
      snd (disperseETH E props) = ([], Inl (AssertionError ''amount must be greater than 0''))) \<and>
   (addressOk E (contractAddress props) \<and>
      list_all (\<lambda>r. addressOk E (Some r)) (de_receivers props) \<and>
      list_all (\<lambda>a. 0 < a) (de_amounts props) \<and>
      length (de_receivers props) \<noteq> length (de_amounts props) \<longrightarrow>
      snd (disperseETH E props) =
        ([], Inl (AssertionError ''receivers and amounts must be the same length''))) \<and>
   (addressOk E (contractAddress props) \<and>
      list_all (\<lambda>r. addressOk E (Some r)) (de_receivers props) \<and>
      list_all (\<lambda>a. 0 < a) (de_amounts props) \<and>
      length (de_receivers props) = length (de_amounts props) \<longrightarrow>
      (\<exists>c. snd (disperseETH E props) =
              ([HandleTx (writeTransaction.truncate props) c],
               snd (handleTx E (writeTransaction.truncate props) c)) \<and>
           call_address c = contractAddress props \<and> call_abi c = DISPERSE_ABI \<and>
           functionName c = ''disperseEther'' \<and>
           args c = [AddrList (de_receivers props), UIntList (de_amounts props)] \<and>
           call_value c = Some (sum_list (de_amounts props)))) \<and>
   ((\<exists>e. snd (disperseETH E props) = ([], Inl e)) \<longleftrightarrow>
      \<not> (addressOk E (contractAddress props) \<and>
         list_all (\<lambda>r. addressOk E (Some r)) (de_receivers props) \<and>
         list_all (\<lambda>a. 0 < a) (de_amounts props) \<and>
         length (de_receivers props) = length (de_amounts props))) \<and>
   (\<not> addressOk E (d20_tokenToDisperse props') \<longrightarrow>
      snd (disperseERC20 E props') = ([], Inl (AddressError (Some ''The tokenToDisperse'')))) \<and>
   (addressOk E (d20_tokenToDisperse props') \<and> \<not> addressOk E (contractAddress props') \<longrightarrow>
      snd (disperseERC20 E props') = ([], Inl (AddressError None))) \<and>
   (\<forall>r. addressOk E (d20_tokenToDisperse props') \<and> addressOk E (contractAddress props') \<and>
      find (\<lambda>r. \<not> addressOk E (Some r)) (d20_receivers props') = Some r \<longrightarrow>
      snd (disperseERC20 E props') = ([], Inl (AddressError (Some r)))) \<and>
   (addressOk E (d20_tokenToDisperse props') \<and> addressOk E (contractAddress props') \<and>
      list_all (\<lambda>r. addressOk E (Some r)) (d20_receivers props') \<and>
      \<not> list_all (\<lambda>a. 0 < a) (d20_amounts props') \<longrightarrow>
      snd (disperseERC20 E props') = ([], Inl (AssertionError ''amount must be greater than 0''))) \<and>
   (addressOk E (d20_tokenToDisperse props') \<and> addressOk E (contractAddress props') \<and>
      list_all (\<lambda>r. addressOk E (Some r)) (d20_receivers props') \<and>
      list_all (\<lambda>a. 0 < a) (d20_amounts props') \<and>
      length (d20_receivers props') \<noteq> length (d20_amounts props') \<longrightarrow>
      snd (disperseERC20 E props') =
        ([], Inl (AssertionError ''receivers and amounts must be the same length''))) \<and>
   (addressOk E (d20_tokenToDisperse props') \<and> addressOk E (contractAddress props') \<and>
      list_all (\<lambda>r. addressOk E (Some r)) (d20_receivers props') \<and>
      list_all (\<lambda>a. 0 < a) (d20_amounts props') \<and>
      length (d20_receivers props') = length (d20_amounts props') \<longrightarrow>
      (\<exists>c. snd (disperseERC20 E props') =
              ([HandleTx (writeTransaction.truncate props') c],
               snd (handleTx E (writeTransaction.truncate props') c)) \<and>
           call_address c = contractAddress props' \<and> call_abi c = DISPERSE_ABI \<and>
           functionName c = ''disperseToken'' \<and>
           args c = [Addr (d20_tokenToDisperse props'), AddrList (d20_receivers props'),
                     UIntList (d20_amounts props')] \<and>
           call_value c = None)) \<and>
   ((\<exists>e. snd (disperseERC20 E props') = ([], Inl e)) \<longleftrightarrow>
      \<not> (addressOk E (d20_tokenToDisperse props') \<and> addressOk E (contractAddress props') \<and>
         list_all (\<lambda>r. addressOk E (Some r)) (d20_receivers props') \<and>
         list_all (\<lambda>a. 0 < a) (d20_amounts props') \<and>
         length (d20_receivers props') = length (d20_amounts props')))"
proof -
  have eth: "(\<exists>e. snd (disperseETH E props) = ([], Inl e)) \<longleftrightarrow>
      \<not> (addressOk E (contractAddress props) \<and>
         list_all (\<lambda>r. addressOk E (Some r)) (de_receivers props) \<and>
         list_all (\<lambda>a. 0 < a) (de_amounts props) \<and>
         length (de_receivers props) = length (de_amounts props))"
    using disperseETH_valid [of E props] disperseETH_invalid [of E props]
    by (auto simp: batch_ok_def)
  have erc: "(\<exists>e. snd (disperseERC20 E props') = ([], Inl e)) \<longleftrightarrow>
      \<not> (addressOk E (d20_tokenToDisperse props') \<and> addressOk E (contractAddress props') \<and>
         list_all (\<lambda>r. addressOk E (Some r)) (d20_receivers props') \<and>
         list_all (\<lambda>a. 0 < a) (d20_amounts props') \<and>
         length (d20_receivers props') = length (d20_amounts props'))"
    using disperseERC20_valid [of E props'] disperseERC20_invalid [of E props']
    by (auto simp: batch_ok_def)
  have eth_ok: "\<exists>c. snd (disperseETH E props) =
              ([HandleTx (writeTransaction.truncate props) c],
               snd (handleTx E (writeTransaction.truncate props) c)) \<and>
           call_address c = contractAddress props \<and> call_abi c = DISPERSE_ABI \<and>
           functionName c = ''disperseEther'' \<and>
           args c = [AddrList (de_receivers props), UIntList (de_amounts props)] \<and>
           call_value c = Some (sum_list (de_amounts props))"
    if "addressOk E (contractAddress props) \<and>
      list_all (\<lambda>r. addressOk E (Some r)) (de_receivers props) \<and>
      list_all (\<lambda>a. 0 < a) (de_amounts props) \<and>
      length (de_receivers props) = length (de_amounts props)"
    using that
    by (intro exI [of _ "disperseEther_call props"])
      (simp add: disperseETH_run find_refused_None [symmetric] disperseEther_call_def)
  have erc_ok: "\<exists>c. snd (disperseERC20 E props') =
              ([HandleTx (writeTransaction.truncate props') c],
               snd (handleTx E (writeTransaction.truncate props') c)) \<and>
           call_address c = contractAddress props' \<and> call_abi c = DISPERSE_ABI \<and>
           functionName c = ''disperseToken'' \<and>
           args c = [Addr (d20_tokenToDisperse props'), AddrList (d20_receivers props'),
                     UIntList (d20_amounts props')] \<and>
           call_value c = None"
    if "addressOk E (d20_tokenToDisperse props') \<and> addressOk E (contractAddress props') \<and>
      list_all (\<lambda>r. addressOk E (Some r)) (d20_receivers props') \<and>
      list_all (\<lambda>a. 0 < a) (d20_amounts props') \<and>
      length (d20_receivers props') = length (d20_amounts props')"
    using that
    by (intro exI [of _ "disperseToken_call props'"])
      (simp add: disperseERC20_run find_refused_None [symmetric] disperseToken_call_def)
  show ?thesis
    using eth erc eth_ok erc_ok
    by (simp add: disperseETH_run disperseERC20_run find_refused_None [symmetric])
qed

text \<open>Claim C3 as stated fails: with no receivers and no amounts, \<open>disperseETH\<close> throws
  nothing and hands \<open>disperseEther\<close> with value 0 to \<open>handleTx\<close>.\<close>

theorem disperse_empty_batch_counterexample:
  "de_receivers empty_disperseETH = [] \<and> de_amounts empty_disperseETH = [] \<and>
   snd (disperseETH demo_env empty_disperseETH) =
     ([HandleTx demo_write
         \<lparr>call_address = Some contract_addr, call_abi = DISPERSE_ABI,
          functionName = ''disperseEther'', args = [AddrList [], UIntList []],
          call_value = Some 0\<rparr>],
      Inr demo_response)"
  by (simp add: disperseETH_valid batch_ok_def disperseEther_call_def demo_defs
      empty_disperseETH_def writeTransaction.truncate_def)

text \<open>An amount of 0, a missing amount and a receiver that is not an address, each refused
  before any event with its own error; and two empty lists, handed to \<open>handleTx\<close> by
  \<open>disperseERC20\<close>.\<close>

theorem disperse_validation_witness:
  "snd (disperseETH demo_env (demo_disperseETH\<lparr>de_amounts := [5, 0]\<rparr>)) =
     ([], Inl (AssertionError ''amount must be greater than 0'')) \<and>
   \<not> list_all (\<lambda>a. 0 < a) (de_amounts (demo_disperseETH\<lparr>de_amounts := [5, 0]\<rparr>)) \<and>
   snd (disperseERC20 demo_env (demo_disperseERC20\<lparr>d20_amounts := [5]\<rparr>)) =
     ([], Inl (AssertionError ''receivers and amounts must be the same length'')) \<and>
   length (d20_receivers (demo_disperseERC20\<lparr>d20_amounts := [5]\<rparr>)) \<noteq>
     length (d20_amounts (demo_disperseERC20\<lparr>d20_amounts := [5]\<rparr>)) \<and>
   find (\<lambda>r. \<not> addressOk demo_env (Some r))
     (de_receivers (demo_disperseETH\<lparr>de_receivers := [alice_addr, ''bob'']\<rparr>)) = Some ''bob'' \<and>
   snd (disperseETH demo_env (demo_disperseETH\<lparr>de_receivers := [alice_addr, ''bob'']\<rparr>)) =
     ([], Inl (AddressError (Some ''bob''))) \<and>
   (\<exists>c. snd (disperseERC20 demo_env (demo_disperseERC20\<lparr>d20_receivers := [], d20_amounts := []\<rparr>)) =
           ([HandleTx demo_write c], Inr demo_response) \<and>
         call_address c = Some contract_addr \<and> call_abi c = DISPERSE_ABI \<and>
         functionName c = ''disperseToken'' \<and>
         args c = [Addr (Some token_addr), AddrList [], UIntList []] \<and> call_value c = None)"
proof -
  let ?p1 = "demo_disperseETH\<lparr>de_amounts := [5, 0]\<rparr>"
  let ?p2 = "demo_disperseERC20\<lparr>d20_amounts := [5]\<rparr>"
  let ?p3 = "demo_disperseETH\<lparr>de_receivers := [alice_addr, ''bob'']\<rparr>"
  let ?p4 = "demo_disperseERC20\<lparr>d20_receivers := [], d20_amounts := []\<rparr>"
  note a = disperse_validation [of demo_env ?p1 ?p2]
  note b = disperse_validation [of demo_env ?p3 ?p4]
  have pre: "addressOk demo_env (d20_tokenToDisperse ?p4) \<and>
      addressOk demo_env (contractAddress ?p4) \<and>
      list_all (\<lambda>r. addressOk demo_env (Some r)) (d20_receivers ?p4) \<and>
      list_all (\<lambda>a. 0 < a) (d20_amounts ?p4) \<and>
      length (d20_receivers ?p4) = length (d20_amounts ?p4)"
    by (simp add: demo_defs demo_disperseERC20_def)
  have t: "writeTransaction.truncate ?p4 = demo_write"
    by (simp add: demo_disperseERC20_def demo_write_def writeTransaction.truncate_def)
  have h: "snd (handleTx demo_env demo_write c) = Inr demo_response" for c
    by (simp add: demo_env_def)
  note e = b [THEN conjunct2, THEN conjunct2, THEN conjunct2, THEN conjunct2, THEN conjunct2,
      THEN conjunct2, THEN conjunct2, THEN conjunct2, THEN conjunct2, THEN conjunct2,
      THEN conjunct2, THEN conjunct1, rule_format, OF pre, unfolded t h]
  have x: "\<exists>c. snd (disperseERC20 demo_env ?p4) = ([HandleTx demo_write c], Inr demo_response) \<and>
         call_address c = Some contract_addr \<and> call_abi c = DISPERSE_ABI \<and>
         functionName c = ''disperseToken'' \<and>
         args c = [Addr (Some token_addr), AddrList [], UIntList []] \<and> call_value c = None"
    using e by (simp add: demo_disperseERC20_def)
  from a b have y: "snd (disperseETH demo_env ?p1) =
        ([], Inl (AssertionError ''amount must be greater than 0'')) \<and>
      \<not> list_all (\<lambda>a. 0 < a) (de_amounts ?p1) \<and>
      snd (disperseERC20 demo_env ?p2) =
        ([], Inl (AssertionError ''receivers and amounts must be the same length'')) \<and>
      length (d20_receivers ?p2) \<noteq> length (d20_amounts ?p2) \<and>
      find (\<lambda>r. \<not> addressOk demo_env (Some r)) (de_receivers ?p3) = Some ''bob'' \<and>
      snd (disperseETH demo_env ?p3) = ([], Inl (AddressError (Some ''bob'')))"
    by (simp add: disperseETH_run disperseERC20_run demo_defs demo_disperseETH_def
        demo_disperseERC20_def)
  from x y show ?thesis by blast
qed

section \<open>The allowance check\<close>

lemma isApprovedERC20_run:
  "snd (isApprovedERC20 E props) =
     (case toWagmiProvider E (ia_connector props) of
        Inl e \<Rightarrow> ([ToWagmiProvider (ia_connector props)], Inl e)
      | Inr wp \<Rightarrow>
          (case readUint E wp (allowance_call props wp) of
             Inl e \<Rightarrow> ([ToWagmiProvider (ia_connector props), ReadContract wp (allowance_call props wp)], Inl e)
           | Inr result \<Rightarrow>
               ([ToWagmiProvider (ia_connector props), ReadContract wp (allowance_call props wp)],
                Inr (or_else (ia_amount props) (MAX_UINT_256 E) \<le> result))))"
  by (simp add: isApprovedERC20_def act_defs bind_split or_else_def
      toBigInt_def split: sum.splits)

text \<open>
  Claim C8. When the allowance has been read, \<open>isApprovedERC20\<close> with no amount or with
  amount 0 returns whether the allowance is at least the imported constant
  \<open>MAX_UINT_256\<close>, whatever its value; with a positive amount it returns whether the
  allowance is at least the amount.
\<close>

theorem isApprovedERC20_threshold:
  assumes "toWagmiProvider E (ia_connector props) = Inr wp"
    and "readUint E wp (allowance_call props wp) = Inr allowance"
  shows "(ia_amount props = None \<or> ia_amount props = Some 0 \<longrightarrow>
            outcome (isApprovedERC20 E props) = Inr (MAX_UINT_256 E \<le> allowance)) \<and>
         (\<forall>a. ia_amount props = Some a \<and> 0 < a \<longrightarrow>
            outcome (isApprovedERC20 E props) = Inr (a \<le> allowance))"
  using assms by (auto simp: outcome_def isApprovedERC20_run or_else_def)

text \<open>An allowance of 5 is enough for an amount of 4; it is not enough when the amount is
  omitted and \<open>MAX_UINT_256\<close> is \<open>2 ^ 256 - 1\<close>.\<close>

theorem isApprovedERC20_threshold_witness:
  "toWagmiProvider demo_env (ia_connector demo_isApproved) = Inr demo_provider \<and>
   readUint demo_env demo_provider (allowance_call demo_isApproved demo_provider) = Inr 5 \<and>
   ia_amount demo_isApproved = Some 4 \<and>
   outcome (isApprovedERC20 demo_env demo_isApproved) = Inr True \<and>
   ia_amount (demo_isApproved\<lparr>ia_amount := None\<rparr>) = None \<and>
   MAX_UINT_256 demo_env = 2 ^ 256 - 1 \<and>
   outcome (isApprovedERC20 demo_env (demo_isApproved\<lparr>ia_amount := None\<rparr>)) = Inr False"
  using isApprovedERC20_threshold [of demo_env demo_isApproved demo_provider 5]
    isApprovedERC20_threshold [of demo_env "demo_isApproved\<lparr>ia_amount := None\<rparr>" demo_provider 5]
  by (simp add: demo_env_def demo_isApproved_def allowance_call_def)

section \<open>The contract functions named by the module\<close>

text \<open>Helper by helper, for every environment and request.\<close>

lemma isApprovedERC20_names: "called_names (trace (isApprovedERC20 E p)) \<subseteq> {''allowance''}"
  by (auto simp: trace_def isApprovedERC20_run allowance_call_def split: sum.splits)

lemma approveERC20_names: "called_names (trace (approveERC20 E p)) \<subseteq> {''approve''}"
  by (auto simp: approveERC20_def approve_call_def act_defs bind_split
      split: sum.splits if_splits)

lemma approveERC20_onTrySomethingElse_names:
  "called_names (trace (approveERC20_onTrySomethingElse E p)) \<subseteq> {''approve''}"
  by (auto simp: approveERC20_onTrySomethingElse_def approve_call_def act_defs bind_split
      split: sum.splits if_splits)

lemma approveAllERC721_names:
  "called_names (trace (approveAllERC721 E p)) \<subseteq> {''setApprovalForAll''}"
  by (auto simp: approveAllERC721_def act_defs bind_split split: sum.splits if_splits)

lemma transferERC721_names:
  "called_names (trace (transferERC721 E p)) \<subseteq> {''safeTransferFrom''}"
  by (auto simp: transferERC721_def act_defs bind_split split: sum.splits if_splits)

lemma batchTransferERC721_names:
  "called_names (trace (batchTransferERC721 E p)) \<subseteq> {''migrate''}"
  by (auto simp: batchTransferERC721_def act_defs bind_split split: sum.splits if_splits)

lemma transferERC1155_names:
  "called_names (trace (transferERC1155 E p)) \<subseteq> {''balanceOfBatch'', ''safeBatchTransferFrom''}"
  by (auto simp: trace_def transferERC1155_run balanceOfBatch_call_def
      safeBatchTransferFrom_call_def Let_def split: sum.splits if_splits)

lemma listERC1155_names:
  "called_names (trace (listERC1155 E p)) \<subseteq> {''balanceOfBatch''}"
  by (auto simp: trace_def listERC1155_run balanceOfBatch_call_def Let_def
      split: sum.splits if_splits)

lemma transferERC20_names:
  "called_names (trace (transferERC20 E p)) \<subseteq> {''transfer''}"
  by (auto simp: transferERC20_def act_defs bind_split split: sum.splits if_splits)

lemma disperseETH_names:
  "called_names (trace (disperseETH E p)) \<subseteq> {''disperseEther''}"
proof (cases "addressOk E (contractAddress p) \<and> batch_ok E (de_receivers p) (de_amounts p)")
  case True
  then show ?thesis by (simp add: trace_def disperseETH_valid disperseEther_call_def)
next
  case False
  from disperseETH_invalid [OF this] show ?thesis by (auto simp: trace_def)
qed

lemma disperseERC20_names:
  "called_names (trace (disperseERC20 E p)) \<subseteq> {''disperseToken''}"
proof (cases "addressOk E (d20_tokenToDisperse p) \<and> addressOk E (contractAddress p) \<and>
    batch_ok E (d20_receivers p) (d20_amounts p)")
  case True
  then show ?thesis by (simp add: trace_def disperseERC20_valid disperseToken_call_def)
next
  case False
  from disperseERC20_invalid [OF this] show ?thesis by (auto simp: trace_def)
qed

lemma fillPriorityFee_names [simp]: "called_names (fst (fillPriorityFee E wp config)) = {}"
  by (simp add: fillPriorityFee_def core_defs bind_split split: sum.splits)

lemma fillPriorityFee_prepared [simp]: "prepared_values (fst (fillPriorityFee E wp config)) = []"
  by (simp add: fillPriorityFee_def core_defs bind_split split: sum.splits)

lemma adjustForGas_names [simp]: "called_names (fst (adjustForGas E props wp config)) = {}"
  by (simp add: adjustForGas_def core_defs bind_split split: sum.splits)

lemma transferEther_try_names [simp]: "called_names (fst (transferEther_try E props wp)) = {}"
  by (simp add: transferEther_try_def core_defs bind_split split: sum.splits)

lemma transferEther_catch_names [simp]: "called_names (fst (transferEther_catch E props e)) = {}"
  by (simp add: transferEther_catch_def core_defs bind_split split: sum.splits)

lemma transferEther_names: "called_names (trace (transferEther E p)) \<subseteq> {}"
  by (simp add: trace_def transferEther_def bind_split try_catch_split finally_do_split
      core_defs heap_defs split: sum.splits)

text \<open>Each of the ten names occurs in a run.\<close>

lemma demo_names:
  "''allowance'' \<in> called_names (trace (isApprovedERC20 demo_env demo_isApproved))"
  "''approve'' \<in> called_names (trace (approveERC20 demo_env demo_approve))"
  "''setApprovalForAll'' \<in> called_names (trace (approveAllERC721 demo_env demo_approveAll))"
  "''safeTransferFrom'' \<in> called_names (trace (transferERC721 demo_env demo_transferERC721))"
  "''migrate'' \<in> called_names (trace (batchTransferERC721 demo_env demo_batchTransferERC721))"
  "''balanceOfBatch'' \<in> called_names (trace (transferERC1155 demo_env demo_transferERC1155))"
  "''safeBatchTransferFrom'' \<in> called_names (trace (transferERC1155 demo_env demo_transferERC1155))"
  "''transfer'' \<in> called_names (trace (transferERC20 demo_env demo_transferERC20))"
  "''disperseEther'' \<in> called_names (trace (disperseETH demo_env demo_disperseETH))"
  "''disperseToken'' \<in> called_names (trace (disperseERC20 demo_env demo_disperseERC20))"
proof -
  show "''allowance'' \<in> called_names (trace (isApprovedERC20 demo_env demo_isApproved))"
    by (simp add: trace_def isApprovedERC20_run allowance_call_def demo_defs)
  show "''approve'' \<in> called_names (trace (approveERC20 demo_env demo_approve))"
    by (simp add: approveERC20_def approve_call_def act_defs bind_split demo_defs demo_approve_def)
  show "''setApprovalForAll'' \<in> called_names (trace (approveAllERC721 demo_env demo_approveAll))"
    by (simp add: approveAllERC721_def act_defs bind_split demo_defs demo_approveAll_def)
  show "''safeTransferFrom'' \<in> called_names (trace (transferERC721 demo_env demo_transferERC721))"
    by (simp add: transferERC721_def act_defs bind_split demo_defs demo_transferERC721_def)
  show "''migrate'' \<in> called_names (trace (batchTransferERC721 demo_env demo_batchTransferERC721))"
    by (simp add: batchTransferERC721_def act_defs bind_split demo_defs
        demo_batchTransferERC721_def)
  show "''balanceOfBatch'' \<in> called_names (trace (transferERC1155 demo_env demo_transferERC1155))"
    by (simp add: trace_def transferERC1155_run balanceOfBatch_call_def demo_defs
        demo_transferERC1155_def positive_pairs_def)
  show "''safeBatchTransferFrom'' \<in> called_names (trace (transferERC1155 demo_env demo_transferERC1155))"
    by (simp add: trace_def transferERC1155_run safeBatchTransferFrom_call_def demo_defs
        demo_transferERC1155_def positive_pairs_def)
  show "''transfer'' \<in> called_names (trace (transferERC20 demo_env demo_transferERC20))"
    by (simp add: transferERC20_def act_defs bind_split demo_defs demo_transferERC20_def)
  show "''disperseEther'' \<in> called_names (trace (disperseETH demo_env demo_disperseETH))"
    by (simp add: trace_def disperseETH_valid batch_ok_def disperseEther_call_def demo_defs
        demo_disperseETH_def)
  show "''disperseToken'' \<in> called_names (trace (disperseERC20 demo_env demo_disperseERC20))"
    by (simp add: trace_def disperseERC20_valid batch_ok_def disperseToken_call_def demo_defs
        demo_disperseERC20_def)
qed

lemma names_ofI: "x \<in> called_names (trace (helper E p)) \<Longrightarrow> x \<in> names_of helper"
  by (auto simp: names_of_def)

lemma names_of_least: "(\<And>E p. called_names (trace (helper E p)) \<subseteq> S) \<Longrightarrow> names_of helper \<subseteq> S"
  by (auto simp: names_of_def)

text \<open>
  Claim C4, as amended. The contract function names that the helpers of the module (and the
  closure of \<open>approveERC20\<close>) name, over all environments and requests, are exactly the
  nine names of the specification and \<open>allowance\<close>.
\<close>

theorem module_names_exact: "module_names = insert ''allowance'' spec_names"
proof
  have "names_of isApprovedERC20 \<subseteq> insert ''allowance'' spec_names"
    by (rule names_of_least, rule order_trans [OF isApprovedERC20_names]) simp
  moreover have "names_of approveERC20 \<subseteq> insert ''allowance'' spec_names"
    by (rule names_of_least, rule order_trans [OF approveERC20_names])
      (simp add: spec_names_def)
  moreover have "names_of approveERC20_onTrySomethingElse \<subseteq> insert ''allowance'' spec_names"
    by (rule names_of_least, rule order_trans [OF approveERC20_onTrySomethingElse_names])
      (simp add: spec_names_def)
  moreover have "names_of approveAllERC721 \<subseteq> insert ''allowance'' spec_names"
    by (rule names_of_least, rule order_trans [OF approveAllERC721_names])
      (simp add: spec_names_def)
  moreover have "names_of transferERC721 \<subseteq> insert ''allowance'' spec_names"
    by (rule names_of_least, rule order_trans [OF transferERC721_names])
      (simp add: spec_names_def)
  moreover have "names_of batchTransferERC721 \<subseteq> insert ''allowance'' spec_names"
    by (rule names_of_least, rule order_trans [OF batchTransferERC721_names])
      (simp add: spec_names_def)
  moreover have "names_of transferERC1155 \<subseteq> insert ''allowance'' spec_names"
    by (rule names_of_least, rule order_trans [OF transferERC1155_names])
      (simp add: spec_names_def)
  moreover have "names_of listERC1155 \<subseteq> insert ''allowance'' spec_names"
    by (rule names_of_least, rule order_trans [OF listERC1155_names])
      (simp add: spec_names_def)
  moreover have "names_of transferERC20 \<subseteq> insert ''allowance'' spec_names"
    by (rule names_of_least, rule order_trans [OF transferERC20_names])
      (simp add: spec_names_def)
  moreover have "names_of transferEther \<subseteq> insert ''allowance'' spec_names"
    by (rule names_of_least, rule order_trans [OF transferEther_names]) simp
  moreover have "names_of disperseETH \<subseteq> insert ''allowance'' spec_names"
    by (rule names_of_least, rule order_trans [OF disperseETH_names])
      (simp add: spec_names_def)
  moreover have "names_of disperseERC20 \<subseteq> insert ''allowance'' spec_names"
    by (rule names_of_least, rule order_trans [OF disperseERC20_names])
      (simp add: spec_names_def)
  ultimately show "module_names \<subseteq> insert ''allowance'' spec_names"
    unfolding module_names_def by (intro Un_least)
next
  have "''allowance'' \<in> module_names" "''approve'' \<in> module_names"
    "''setApprovalForAll'' \<in> module_names" "''safeTransferFrom'' \<in> module_names"
    "''migrate'' \<in> module_names" "''balanceOfBatch'' \<in> module_names"
    "''safeBatchTransferFrom'' \<in> module_names" "''transfer'' \<in> module_names"
    "''disperseEther'' \<in> module_names" "''disperseToken'' \<in> module_names"
    using
      names_ofI [of _ isApprovedERC20 demo_env demo_isApproved, OF demo_names(1)]
      names_ofI [of _ approveERC20 demo_env demo_approve, OF demo_names(2)]
      names_ofI [of _ approveAllERC721 demo_env demo_approveAll, OF demo_names(3)]
      names_ofI [of _ transferERC721 demo_env demo_transferERC721, OF demo_names(4)]
      names_ofI [of _ batchTransferERC721 demo_env demo_batchTransferERC721, OF demo_names(5)]
      names_ofI [of _ transferERC1155 demo_env demo_transferERC1155, OF demo_names(6)]
      names_ofI [of _ transferERC1155 demo_env demo_transferERC1155, OF demo_names(7)]
      names_ofI [of _ transferERC20 demo_env demo_transferERC20, OF demo_names(8)]
      names_ofI [of _ disperseETH demo_env demo_disperseETH, OF demo_names(9)]
      names_ofI [of _ disperseERC20 demo_env demo_disperseERC20, OF demo_names(10)]
    unfolding module_names_def by simp_all
  then show "insert ''allowance'' spec_names \<subseteq> module_names"
    by (simp add: spec_names_def)
qed

text \<open>Claim C4 as stated fails: \<open>isApprovedERC20\<close> reads \<open>allowance\<close>, which is not
  among the nine names.\<close>

theorem allowance_counterexample:
  "''allowance'' \<in> called_names (trace (isApprovedERC20 demo_env demo_isApproved)) \<and>
   ''allowance'' \<notin> spec_names"
  by (simp add: trace_def isApprovedERC20_run allowance_call_def demo_defs spec_names_def)

section \<open>transferEther: failures, results and the adjusted value\<close>

text \<open>The run of \<open>transferEther\<close> once its checks have passed, and the checks as a
  consequence of a returned result.\<close>

lemma transferEther_reached:
  assumes "addressOk E (te_receiverAddress props)"
    and "toWagmiProvider E (te_connector props) = Inr wp"
    and "addressOk E (wp_address wp)"
  shows "snd (transferEther E props) =
           (fst (notify (te_statusHandler props) ((defaultTxStatus E)\<lparr>st_pending := True\<rparr>)) @
            ToWagmiProvider (te_connector props) #
            fst (try_catch (transferEther_try E props wp) (transferEther_catch E props)) @
            [SetTimeout 3000],
            snd (try_catch (transferEther_try E props wp) (transferEther_catch E props)))"
  using assms
  by (simp add: transferEther_def bind_split finally_do_split core_defs heap_defs)

lemma transferEther_returns:
  assumes "outcome (transferEther E props) = Inr r"
  shows "\<exists>wp. addressOk E (te_receiverAddress props) \<and>
           toWagmiProvider E (te_connector props) = Inr wp \<and> addressOk E (wp_address wp)"
  using assms
  by (auto simp: outcome_def transferEther_def bind_split finally_do_split core_defs heap_defs
      split: sum.splits if_splits)

lemma try_catch_caught:
  assumes "snd m = Inl e"
  shows "try_catch m (transferEther_catch E props) =
           (fst m @ ConsoleError e #
              fst (notify (te_statusHandler props) ((defaultTxStatus E)\<lparr>st_error := True\<rparr>)),
            Inr \<lparr>isSuccessful = False, tx_receipt = None, tx_error = Some e\<rparr>)"
  using assms
  by (simp add: try_catch_split transferEther_catch_def bind_split core_defs)

lemma try_catch_passed:
  assumes "snd m = Inr x"
  shows "try_catch m h = m"
  using assms by (cases m) (simp add: try_catch_split)

lemma transferEther_try_returned:
  assumes "snd (transferEther_try E props wp) = Inr r"
  shows "\<exists>config h rc.
           sendTransaction E config = Inr h \<and>
           waitForTransaction E (wp_chainId wp) h = Inr rc \<and>
           SendTransaction config \<in> set (fst (transferEther_try E props wp)) \<and>
           WaitForTransaction (wp_chainId wp) h \<in> set (fst (transferEther_try E props wp)) \<and>
           r = \<lparr>isSuccessful = (rc_status rc = ''success''), tx_receipt = Some rc, tx_error = None\<rparr>"
  using assms
  by (auto simp: transferEther_try_def bind_split core_defs split: sum.splits if_splits) blast+

lemma transferEther_try_send_throws:
  assumes "prepareSendTransaction E wp (te_receiverAddress props) (te_amount props) = Inr config0"
    and "snd (adjustForGas E props wp config0) = Inr config"
    and "sendTransaction E config = Inl e"
  shows "snd (transferEther_try E props wp) = Inl e"
  using assms by (simp add: transferEther_try_def bind_split core_defs)

lemma transferEther_try_wait_throws:
  assumes "prepareSendTransaction E wp (te_receiverAddress props) (te_amount props) = Inr config0"
    and "snd (adjustForGas E props wp config0) = Inr config"
    and "sendTransaction E config = Inr h"
    and "waitForTransaction E (wp_chainId wp) h = Inl e"
  shows "snd (transferEther_try E props wp) = Inl e"
  using assms by (simp add: transferEther_try_def bind_split core_defs)

lemma transferEther_catches:
  assumes "addressOk E (te_receiverAddress props)"
    and "toWagmiProvider E (te_connector props) = Inr wp"
    and "addressOk E (wp_address wp)"
    and "snd (transferEther_try E props wp) = Inl e"
  shows "outcome (transferEther E props) =
           Inr \<lparr>isSuccessful = False, tx_receipt = None, tx_error = Some e\<rparr>"
    and "ConsoleError e \<in> set (trace (transferEther E props))"
    and "te_statusHandler props = Some cb \<Longrightarrow>
           StatusHandler cb ((defaultTxStatus E)\<lparr>st_error := True\<rparr>)
             \<in> set (trace (transferEther E props))"
  using assms
  by (simp_all add: outcome_def trace_def transferEther_reached try_catch_caught notify_events)

lemmas transferEther_defs = transferEther_def transferEther_try_def transferEther_catch_def
  adjustForGas_def fillPriorityFee_def falsy_def newAmount_def toBigInt_def or_else_def
  notify_def bind_split try_catch_split finally_do_split core_defs heap_defs outcome_def trace_def
  rejecting_env_def demo_defs demo_transferEther_def

text \<open>
  Claim C5. Once \<open>transferEther\<close> has entered its \<open>try\<close>, a throw of
  \<open>sendTransaction\<close> or of \<open>waitForTransaction\<close> does not leave the helper: the helper
  logs the error, calls the status callback (when there is one) with the error status, and
  returns \<open>{isSuccessful: false, error}\<close>.
\<close>

theorem transferEther_catches_failures:
  assumes "addressOk E (te_receiverAddress props)"
    and "toWagmiProvider E (te_connector props) = Inr wp"
    and "addressOk E (wp_address wp)"
    and "prepareSendTransaction E wp (te_receiverAddress props) (te_amount props) = Inr config0"
    and "snd (adjustForGas E props wp config0) = Inr config"
    and "sendTransaction E config = Inl e \<or>
         (\<exists>h. sendTransaction E config = Inr h \<and> waitForTransaction E (wp_chainId wp) h = Inl e)"
  shows "outcome (transferEther E props) =
           Inr \<lparr>isSuccessful = False, tx_receipt = None, tx_error = Some e\<rparr> \<and>
         ConsoleError e \<in> set (trace (transferEther E props)) \<and>
         (\<forall>cb. te_statusHandler props = Some cb \<longrightarrow>
            StatusHandler cb ((defaultTxStatus E)\<lparr>st_error := True\<rparr>)
              \<in> set (trace (transferEther E props)))"
proof -
  from assms(4-6) have "snd (transferEther_try E props wp) = Inl e"
    using transferEther_try_send_throws transferEther_try_wait_throws by blast
  from transferEther_catches [OF assms(1-3) this] show ?thesis by blast
qed

text \<open>A wallet that rejects the transaction.\<close>

theorem transferEther_catches_failures_witness:
  "addressOk rejecting_env (te_receiverAddress demo_transferEther) \<and>
   toWagmiProvider rejecting_env (te_connector demo_transferEther) = Inr demo_provider \<and>
   addressOk rejecting_env (wp_address demo_provider) \<and>
   prepareSendTransaction rejecting_env demo_provider (te_receiverAddress demo_transferEther)
     (te_amount demo_transferEther) =
     Inr \<lparr>cfg_to = Some receiver_addr, cfg_value = 1000000, cfg_gas = Some 21000,
          cfg_maxPriorityFeePerGas = None\<rparr> \<and>
   snd (adjustForGas rejecting_env demo_transferEther demo_provider
          \<lparr>cfg_to = Some receiver_addr, cfg_value = 1000000, cfg_gas = Some 21000,
           cfg_maxPriorityFeePerGas = None\<rparr>) =
     Inr \<lparr>cfg_to = Some receiver_addr, cfg_value = 937000, cfg_gas = Some 21000,
          cfg_maxPriorityFeePerGas = None\<rparr> \<and>
   sendTransaction rejecting_env
     \<lparr>cfg_to = Some receiver_addr, cfg_value = 937000, cfg_gas = Some 21000,
      cfg_maxPriorityFeePerGas = None\<rparr> = Inl (LibraryError ''User rejected the request'') \<and>
   outcome (transferEther rejecting_env demo_transferEther) =
     Inr \<lparr>isSuccessful = False, tx_receipt = None,
          tx_error = Some (LibraryError ''User rejected the request'')\<rparr> \<and>
   ConsoleError (LibraryError ''User rejected the request'')
     \<in> set (trace (transferEther rejecting_env demo_transferEther)) \<and>
   te_statusHandler demo_transferEther = Some (Callback 0) \<and>
   StatusHandler (Callback 0) ((defaultTxStatus rejecting_env)\<lparr>st_error := True\<rparr>)
     \<in> set (trace (transferEther rejecting_env demo_transferEther))"
proof -
  have h1: "addressOk rejecting_env (te_receiverAddress demo_transferEther)"
    and h2: "toWagmiProvider rejecting_env (te_connector demo_transferEther) = Inr demo_provider"
    and h3: "addressOk rejecting_env (wp_address demo_provider)"
    and h4: "prepareSendTransaction rejecting_env demo_provider
        (te_receiverAddress demo_transferEther) (te_amount demo_transferEther) =
        Inr \<lparr>cfg_to = Some receiver_addr, cfg_value = 1000000, cfg_gas = Some 21000,
             cfg_maxPriorityFeePerGas = None\<rparr>"
    and h5: "snd (adjustForGas rejecting_env demo_transferEther demo_provider
          \<lparr>cfg_to = Some receiver_addr, cfg_value = 1000000, cfg_gas = Some 21000,
           cfg_maxPriorityFeePerGas = None\<rparr>) =
        Inr \<lparr>cfg_to = Some receiver_addr, cfg_value = 937000, cfg_gas = Some 21000,
             cfg_maxPriorityFeePerGas = None\<rparr>"
    and h6: "sendTransaction rejecting_env
        \<lparr>cfg_to = Some receiver_addr, cfg_value = 937000, cfg_gas = Some 21000,
         cfg_maxPriorityFeePerGas = None\<rparr> = Inl (LibraryError ''User rejected the request'')"
    and h7: "te_statusHandler demo_transferEther = Some (Callback 0)"
    by (simp_all add: transferEther_defs)
  from transferEther_catches_failures [OF h1 h2 h3 h4 h5 disjI1, OF h6] h1 h2 h3 h4 h5 h6 h7
  show ?thesis by simp
qed

text \<open>The \<open>try\<close> returns the receipt of a mined transaction, whatever its status, and
  throws what \<open>prepareSendTransaction\<close> or the adjustment for gas throws.\<close>

lemma transferEther_try_mined:
  assumes "prepareSendTransaction E wp (te_receiverAddress props) (te_amount props) = Inr config0"
    and "snd (adjustForGas E props wp config0) = Inr config"
    and "sendTransaction E config = Inr h"
    and "waitForTransaction E (wp_chainId wp) h = Inr rc"
  shows "snd (transferEther_try E props wp) =
           Inr \<lparr>isSuccessful = (rc_status rc = ''success''), tx_receipt = Some rc,
                tx_error = None\<rparr>"
  using assms by (simp add: transferEther_try_def bind_split core_defs)

lemma transferEther_try_prepare_throws:
  assumes "prepareSendTransaction E wp (te_receiverAddress props) (te_amount props) = Inl e"
  shows "snd (transferEther_try E props wp) = Inl e"
  using assms by (simp add: transferEther_try_def bind_split core_defs)

lemma transferEther_try_adjust_throws:
  assumes "prepareSendTransaction E wp (te_receiverAddress props) (te_amount props) = Inr config0"
    and "snd (adjustForGas E props wp config0) = Inl e"
  shows "snd (transferEther_try E props wp) = Inl e"
  using assms by (simp add: transferEther_try_def bind_split core_defs)

lemma transferEther_passes:
  assumes "addressOk E (te_receiverAddress props)"
    and "toWagmiProvider E (te_connector props) = Inr wp"
    and "addressOk E (wp_address wp)"
    and "snd (transferEther_try E props wp) = Inr r"
  shows "outcome (transferEther E props) = Inr r"
  using assms by (simp add: outcome_def transferEther_reached try_catch_passed)

text \<open>
  Claim C7. When the transaction is mined, \<open>transferEther\<close> returns the receipt, with
  \<open>isSuccessful\<close> true exactly when the status of the receipt is \<open>success\<close>, and no
  error. When \<open>prepareSendTransaction\<close>, the adjustment for gas, \<open>sendTransaction\<close> or
  \<open>waitForTransaction\<close> throws, it returns the error, with \<open>isSuccessful\<close> false and no
  receipt. Every result it returns is of one of these two kinds.
\<close>

theorem transferEther_result:
  "(\<forall>wp config0 config h rc.
      addressOk E (te_receiverAddress props) \<and>
      toWagmiProvider E (te_connector props) = Inr wp \<and> addressOk E (wp_address wp) \<and>
      prepareSendTransaction E wp (te_receiverAddress props) (te_amount props) = Inr config0 \<and>
      snd (adjustForGas E props wp config0) = Inr config \<and>
      sendTransaction E config = Inr h \<and> waitForTransaction E (wp_chainId wp) h = Inr rc \<longrightarrow>
      outcome (transferEther E props) =
        Inr \<lparr>isSuccessful = (rc_status rc = ''success''), tx_receipt = Some rc,
             tx_error = None\<rparr>) \<and>
   (\<forall>wp e.
      addressOk E (te_receiverAddress props) \<and>
      toWagmiProvider E (te_connector props) = Inr wp \<and> addressOk E (wp_address wp) \<and>
      (prepareSendTransaction E wp (te_receiverAddress props) (te_amount props) = Inl e \<or>
       (\<exists>config0.
          prepareSendTransaction E wp (te_receiverAddress props) (te_amount props) = Inr config0 \<and>
          (snd (adjustForGas E props wp config0) = Inl e \<or>
           (\<exists>config.
              snd (adjustForGas E props wp config0) = Inr config \<and>
              (sendTransaction E config = Inl e \<or>
               (\<exists>h. sendTransaction E config = Inr h \<and>
                  waitForTransaction E (wp_chainId wp) h = Inl e)))))) \<longrightarrow>
      outcome (transferEther E props) =
        Inr \<lparr>isSuccessful = False, tx_receipt = None, tx_error = Some e\<rparr>) \<and>
   (\<forall>r. outcome (transferEther E props) = Inr r \<longrightarrow>
      (\<exists>config chain h rc.
         sendTransaction E config = Inr h \<and> waitForTransaction E chain h = Inr rc \<and>
         SendTransaction config \<in> set (trace (transferEther E props)) \<and>
         WaitForTransaction chain h \<in> set (trace (transferEther E props)) \<and>
         r = \<lparr>isSuccessful = (rc_status rc = ''success''), tx_receipt = Some rc,
              tx_error = None\<rparr>) \<or>
      (\<exists>e. ConsoleError e \<in> set (trace (transferEther E props)) \<and>
         r = \<lparr>isSuccessful = False, tx_receipt = None, tx_error = Some e\<rparr>))"
proof (intro conjI allI impI)
  fix wp config0 config h rc
  assume a: "addressOk E (te_receiverAddress props) \<and>
      toWagmiProvider E (te_connector props) = Inr wp \<and> addressOk E (wp_address wp) \<and>
      prepareSendTransaction E wp (te_receiverAddress props) (te_amount props) = Inr config0 \<and>
      snd (adjustForGas E props wp config0) = Inr config \<and>
      sendTransaction E config = Inr h \<and> waitForTransaction E (wp_chainId wp) h = Inr rc"
  then have "snd (transferEther_try E props wp) =
      Inr \<lparr>isSuccessful = (rc_status rc = ''success''), tx_receipt = Some rc, tx_error = None\<rparr>"
    using transferEther_try_mined by blast
  with a show "outcome (transferEther E props) =
      Inr \<lparr>isSuccessful = (rc_status rc = ''success''), tx_receipt = Some rc, tx_error = None\<rparr>"
    using transferEther_passes by blast
next
  fix wp e
  assume a: "addressOk E (te_receiverAddress props) \<and>
      toWagmiProvider E (te_connector props) = Inr wp \<and> addressOk E (wp_address wp) \<and>
      (prepareSendTransaction E wp (te_receiverAddress props) (te_amount props) = Inl e \<or>
       (\<exists>config0.
          prepareSendTransaction E wp (te_receiverAddress props) (te_amount props) = Inr config0 \<and>
          (snd (adjustForGas E props wp config0) = Inl e \<or>
           (\<exists>config.
              snd (adjustForGas E props wp config0) = Inr config \<and>
              (sendTransaction E config = Inl e \<or>
               (\<exists>h. sendTransaction E config = Inr h \<and>
                  waitForTransaction E (wp_chainId wp) h = Inl e))))))"
  then have "snd (transferEther_try E props wp) = Inl e"
    by (auto simp: transferEther_try_prepare_throws transferEther_try_adjust_throws
        transferEther_try_send_throws transferEther_try_wait_throws)
  with a show "outcome (transferEther E props) =
      Inr \<lparr>isSuccessful = False, tx_receipt = None, tx_error = Some e\<rparr>"
    using transferEther_catches(1) by blast
next
  fix r
  assume r: "outcome (transferEther E props) = Inr r"
  from transferEther_returns [OF r] obtain wp where
    reach: "addressOk E (te_receiverAddress props)"
      "toWagmiProvider E (te_connector props) = Inr wp" "addressOk E (wp_address wp)"
    by blast
  show "(\<exists>config chain h rc.
         sendTransaction E config = Inr h \<and> waitForTransaction E chain h = Inr rc \<and>
         SendTransaction config \<in> set (trace (transferEther E props)) \<and>
         WaitForTransaction chain h \<in> set (trace (transferEther E props)) \<and>
         r = \<lparr>isSuccessful = (rc_status rc = ''success''), tx_receipt = Some rc,
              tx_error = None\<rparr>) \<or>
      (\<exists>e. ConsoleError e \<in> set (trace (transferEther E props)) \<and>
         r = \<lparr>isSuccessful = False, tx_receipt = None, tx_error = Some e\<rparr>)"
  proof (cases "snd (transferEther_try E props wp)")
    case (Inl e)
    from transferEther_catches(1,2) [OF reach Inl] r show ?thesis by auto
  next
    case (Inr r')
    with r reach have "r = r'"
      by (simp add: outcome_def transferEther_reached try_catch_passed)
    with transferEther_try_returned [OF Inr] obtain config h rc where
      "sendTransaction E config = Inr h" "waitForTransaction E (wp_chainId wp) h = Inr rc"
      "SendTransaction config \<in> set (fst (transferEther_try E props wp))"
      "WaitForTransaction (wp_chainId wp) h \<in> set (fst (transferEther_try E props wp))"
      "r = \<lparr>isSuccessful = (rc_status rc = ''success''), tx_receipt = Some rc, tx_error = None\<rparr>"
      by blast
    with reach Inr show ?thesis
      by (auto simp: trace_def transferEther_reached try_catch_passed)
  qed
qed

text \<open>A transfer that is mined with success, one that is mined and reverted, and one that
  the wallet rejects.\<close>

theorem transferEther_result_witness:
  "sendTransaction demo_env
     \<lparr>cfg_to = Some receiver_addr, cfg_value = 937000, cfg_gas = Some 21000,
      cfg_maxPriorityFeePerGas = None\<rparr> = Inr ''0xhash'' \<and>
   waitForTransaction demo_env (wp_chainId demo_provider) ''0xhash'' = Inr demo_receipt \<and>
   outcome (transferEther demo_env demo_transferEther) =
     Inr \<lparr>isSuccessful = True, tx_receipt = Some demo_receipt, tx_error = None\<rparr> \<and>
   waitForTransaction reverting_env (wp_chainId demo_provider) ''0xhash'' = Inr reverted_receipt \<and>
   outcome (transferEther reverting_env demo_transferEther) =
     Inr \<lparr>isSuccessful = False, tx_receipt = Some reverted_receipt, tx_error = None\<rparr> \<and>
   sendTransaction rejecting_env
     \<lparr>cfg_to = Some receiver_addr, cfg_value = 937000, cfg_gas = Some 21000,
      cfg_maxPriorityFeePerGas = None\<rparr> = Inl (LibraryError ''User rejected the request'') \<and>
   outcome (transferEther rejecting_env demo_transferEther) =
     Inr \<lparr>isSuccessful = False, tx_receipt = None,
          tx_error = Some (LibraryError ''User rejected the request'')\<rparr>"
proof -
  let ?first = "\<lparr>cfg_to = Some receiver_addr, cfg_value = 1000000, cfg_gas = Some 21000,
      cfg_maxPriorityFeePerGas = None\<rparr>"
  let ?last = "\<lparr>cfg_to = Some receiver_addr, cfg_value = 937000, cfg_gas = Some 21000,
      cfg_maxPriorityFeePerGas = None\<rparr>"
  have m0: "addressOk demo_env (te_receiverAddress demo_transferEther)"
      "toWagmiProvider demo_env (te_connector demo_transferEther) = Inr demo_provider"
      "addressOk demo_env (wp_address demo_provider)"
      "prepareSendTransaction demo_env demo_provider (te_receiverAddress demo_transferEther)
         (te_amount demo_transferEther) = Inr ?first"
      "snd (adjustForGas demo_env demo_transferEther demo_provider ?first) = Inr ?last"
      "sendTransaction demo_env ?last = Inr ''0xhash''"
      "waitForTransaction demo_env (wp_chainId demo_provider) ''0xhash'' = Inr demo_receipt"
    by (simp_all add: transferEther_defs)
  have v0: "addressOk reverting_env (te_receiverAddress demo_transferEther)"
      "toWagmiProvider reverting_env (te_connector demo_transferEther) = Inr demo_provider"
      "addressOk reverting_env (wp_address demo_provider)"
      "prepareSendTransaction reverting_env demo_provider (te_receiverAddress demo_transferEther)
         (te_amount demo_transferEther) = Inr ?first"
      "snd (adjustForGas reverting_env demo_transferEther demo_provider ?first) = Inr ?last"
      "sendTransaction reverting_env ?last = Inr ''0xhash''"
      "waitForTransaction reverting_env (wp_chainId demo_provider) ''0xhash'' = Inr reverted_receipt"
    by (simp_all add: transferEther_defs)
  have mined: "addressOk demo_env (te_receiverAddress demo_transferEther) \<and>
      toWagmiProvider demo_env (te_connector demo_transferEther) = Inr demo_provider \<and>
      addressOk demo_env (wp_address demo_provider) \<and>
      prepareSendTransaction demo_env demo_provider (te_receiverAddress demo_transferEther)
        (te_amount demo_transferEther) = Inr ?first \<and>
      snd (adjustForGas demo_env demo_transferEther demo_provider ?first) = Inr ?last \<and>
      sendTransaction demo_env ?last = Inr ''0xhash'' \<and>
      waitForTransaction demo_env (wp_chainId demo_provider) ''0xhash'' = Inr demo_receipt"
    using m0 by blast
  have reverted: "addressOk reverting_env (te_receiverAddress demo_transferEther) \<and>
      toWagmiProvider reverting_env (te_connector demo_transferEther) = Inr demo_provider \<and>
      addressOk reverting_env (wp_address demo_provider) \<and>
      prepareSendTransaction reverting_env demo_provider (te_receiverAddress demo_transferEther)
        (te_amount demo_transferEther) = Inr ?first \<and>
      snd (adjustForGas reverting_env demo_transferEther demo_provider ?first) = Inr ?last \<and>
      sendTransaction reverting_env ?last = Inr ''0xhash'' \<and>
      waitForTransaction reverting_env (wp_chainId demo_provider) ''0xhash'' = Inr reverted_receipt"
    using v0 by blast
  have r0: "addressOk rejecting_env (te_receiverAddress demo_transferEther)"
      "toWagmiProvider rejecting_env (te_connector demo_transferEther) = Inr demo_provider"
      "addressOk rejecting_env (wp_address demo_provider)"
    and r1: "prepareSendTransaction rejecting_env demo_provider
        (te_receiverAddress demo_transferEther) (te_amount demo_transferEther) = Inr ?first"
    and r2: "snd (adjustForGas rejecting_env demo_transferEther demo_provider ?first) = Inr ?last"
    and r3: "sendTransaction rejecting_env ?last = Inl (LibraryError ''User rejected the request'')"
    by (simp_all add: transferEther_defs)
  have rejected: "addressOk rejecting_env (te_receiverAddress demo_transferEther) \<and>
      toWagmiProvider rejecting_env (te_connector demo_transferEther) = Inr demo_provider \<and>
      addressOk rejecting_env (wp_address demo_provider) \<and>
      (prepareSendTransaction rejecting_env demo_provider (te_receiverAddress demo_transferEther)
         (te_amount demo_transferEther) = Inl (LibraryError ''User rejected the request'') \<or>
       (\<exists>config0.
          prepareSendTransaction rejecting_env demo_provider (te_receiverAddress demo_transferEther)
            (te_amount demo_transferEther) = Inr config0 \<and>
          (snd (adjustForGas rejecting_env demo_transferEther demo_provider config0) =
             Inl (LibraryError ''User rejected the request'') \<or>
           (\<exists>config.
              snd (adjustForGas rejecting_env demo_transferEther demo_provider config0) = Inr config \<and>
              (sendTransaction rejecting_env config = Inl (LibraryError ''User rejected the request'') \<or>
               (\<exists>h. sendTransaction rejecting_env config = Inr h \<and>
                  waitForTransaction rejecting_env (wp_chainId demo_provider) h =
                    Inl (LibraryError ''User rejected the request'')))))))"
    using r0 r1 r2 r3 by blast
  note m = transferEther_result [THEN conjunct1, rule_format, OF mined]
  note v = transferEther_result [THEN conjunct1, rule_format, OF reverted]
  note j = transferEther_result [THEN conjunct2, THEN conjunct1, rule_format, OF rejected]
  from m v j mined reverted r3 show ?thesis
    by (simp add: demo_receipt_def reverted_receipt_def)
qed

lemma fillPriorityFee_returned:
  assumes "snd (fillPriorityFee E wp config0) = Inr config1"
  shows "cfg_gas config1 = cfg_gas config0"
    and "\<not> falsy (cfg_maxPriorityFeePerGas config0) \<Longrightarrow> config1 = config0"
    and "falsy (cfg_maxPriorityFeePerGas config0) \<Longrightarrow>
           \<exists>client gasPrice.
             getPublicClient E (wp_chainId wp) = Inr client \<and>
             getGasPrice E client = Inr gasPrice \<and>
             cfg_maxPriorityFeePerGas config1 = Some gasPrice"
  using assms
  by (auto simp: fillPriorityFee_def bind_split core_defs split: sum.splits if_splits)

lemma adjustForGas_adjusting:
  assumes "te_shouldAdjustForGas props = Some True"
    and "snd (fillPriorityFee E wp config0) = Inr config1"
  shows "adjustForGas E props wp config0 =
           (fst (fillPriorityFee E wp config0) @
              [PrepareSendTransaction wp (te_receiverAddress props)
                 (te_amount props - newAmount config1)],
            prepareSendTransaction E wp (te_receiverAddress props)
              (te_amount props - newAmount config1))"
  using assms by (simp add: adjustForGas_def bind_split core_defs)

lemma transferEther_catch_prepared [simp]:
  "prepared_values (fst (transferEther_catch E props e)) = []"
  by (simp add: transferEther_catch_def bind_split core_defs)

lemma transferEther_try_adjusting:
  assumes "te_shouldAdjustForGas props = Some True"
    and "prepareSendTransaction E wp (te_receiverAddress props) (te_amount props) = Inr config0"
    and "snd (fillPriorityFee E wp config0) = Inr config1"
  shows "prepared_values (fst (transferEther_try E props wp)) =
           [te_amount props, te_amount props - newAmount config1]"
    and "prepareSendTransaction E wp (te_receiverAddress props)
           (te_amount props - newAmount config1) = Inr config2 \<Longrightarrow>
         SendTransaction config2 \<in> set (fst (transferEther_try E props wp))"
  using assms
  by (simp_all add: transferEther_try_def adjustForGas_adjusting bind_split core_defs
      split: sum.splits)

text \<open>
  Claim C9. With \<open>shouldAdjustForGas\<close> set, \<open>prepareSendTransaction\<close> is called twice:
  with the amount, then with the amount minus (gas times priority fee, plus 21000), where the
  gas is that of the first prepared request and the priority fee is that of the first
  prepared request or, when it has none, the gas price. The request sent is the one prepared
  last.
\<close>

theorem transferEther_adjusted_value:
  assumes "addressOk E (te_receiverAddress props)"
    and "toWagmiProvider E (te_connector props) = Inr wp"
    and "addressOk E (wp_address wp)"
    and "te_shouldAdjustForGas props = Some True"
    and "prepareSendTransaction E wp (te_receiverAddress props) (te_amount props) = Inr config0"
    and "snd (fillPriorityFee E wp config0) = Inr config1"
  shows "prepared_values (trace (transferEther E props)) =
           [te_amount props,
            te_amount props -
              (toBigInt (cfg_gas config0) * toBigInt (cfg_maxPriorityFeePerGas config1) + 21000)] \<and>
         (\<not> falsy (cfg_maxPriorityFeePerGas config0) \<longrightarrow>
            cfg_maxPriorityFeePerGas config1 = cfg_maxPriorityFeePerGas config0) \<and>
         (falsy (cfg_maxPriorityFeePerGas config0) \<longrightarrow>
            (\<exists>client gasPrice.
               getPublicClient E (wp_chainId wp) = Inr client \<and>
               getGasPrice E client = Inr gasPrice \<and>
               cfg_maxPriorityFeePerGas config1 = Some gasPrice)) \<and>
         (\<forall>config2.
            prepareSendTransaction E wp (te_receiverAddress props)
              (te_amount props -
                 (toBigInt (cfg_gas config0) * toBigInt (cfg_maxPriorityFeePerGas config1) + 21000))
              = Inr config2 \<longrightarrow>
            SendTransaction config2 \<in> set (trace (transferEther E props)))"
proof -
  note fee = fillPriorityFee_returned [OF assms(6)]
  have new: "newAmount config1 =
      toBigInt (cfg_gas config0) * toBigInt (cfg_maxPriorityFeePerGas config1) + 21000"
    by (simp add: newAmount_def fee(1))
  have tr: "trace (transferEther E props) =
      fst (notify (te_statusHandler props) ((defaultTxStatus E)\<lparr>st_pending := True\<rparr>)) @
      ToWagmiProvider (te_connector props) #
      fst (try_catch (transferEther_try E props wp) (transferEther_catch E props)) @
      [SetTimeout 3000]"
    by (simp add: trace_def transferEther_reached [OF assms(1-3)])
  have tc: "fst (try_catch (transferEther_try E props wp) (transferEther_catch E props)) =
      fst (transferEther_try E props wp) @
      (case snd (transferEther_try E props wp) of
         Inl e \<Rightarrow> fst (transferEther_catch E props e) | Inr _ \<Rightarrow> [])"
    by (simp add: try_catch_split split: sum.splits)
  have "prepared_values (trace (transferEther E props)) =
      [te_amount props, te_amount props - newAmount config1]"
    by (simp add: tr tc transferEther_try_adjusting(1) [OF assms(4-6)] split: sum.splits)
  moreover have "SendTransaction config2 \<in> set (trace (transferEther E props))"
    if "prepareSendTransaction E wp (te_receiverAddress props)
          (te_amount props - newAmount config1) = Inr config2" for config2
    using transferEther_try_adjusting(2) [OF assms(4-6) that] by (simp add: tr tc)
  ultimately show ?thesis using fee(2,3) by (simp add: new)
qed

text \<open>Amount 1000000, gas 21000, no priority fee, gas price 2: the value prepared last is
  \<open>1000000 - (21000 * 2 + 21000) = 937000\<close>.\<close>

theorem transferEther_adjusted_value_witness:
  "addressOk demo_env (te_receiverAddress demo_transferEther) \<and>
   toWagmiProvider demo_env (te_connector demo_transferEther) = Inr demo_provider \<and>
   addressOk demo_env (wp_address demo_provider) \<and>
   te_shouldAdjustForGas demo_transferEther = Some True \<and>
   prepareSendTransaction demo_env demo_provider (te_receiverAddress demo_transferEther)
     (te_amount demo_transferEther) =
     Inr \<lparr>cfg_to = Some receiver_addr, cfg_value = 1000000, cfg_gas = Some 21000,
          cfg_maxPriorityFeePerGas = None\<rparr> \<and>
   snd (fillPriorityFee demo_env demo_provider
          \<lparr>cfg_to = Some receiver_addr, cfg_value = 1000000, cfg_gas = Some 21000,
           cfg_maxPriorityFeePerGas = None\<rparr>) =
     Inr \<lparr>cfg_to = Some receiver_addr, cfg_value = 1000000, cfg_gas = Some 21000,
          cfg_maxPriorityFeePerGas = Some 2\<rparr> \<and>
   prepared_values (trace (transferEther demo_env demo_transferEther)) = [1000000, 937000] \<and>
   SendTransaction \<lparr>cfg_to = Some receiver_addr, cfg_value = 937000, cfg_gas = Some 21000,
                    cfg_maxPriorityFeePerGas = None\<rparr>
     \<in> set (trace (transferEther demo_env demo_transferEther))"
proof -
  have h1: "addressOk demo_env (te_receiverAddress demo_transferEther)"
    and h2: "toWagmiProvider demo_env (te_connector demo_transferEther) = Inr demo_provider"
    and h3: "addressOk demo_env (wp_address demo_provider)"
    and h4: "te_shouldAdjustForGas demo_transferEther = Some True"
    and h5: "prepareSendTransaction demo_env demo_provider
        (te_receiverAddress demo_transferEther) (te_amount demo_transferEther) =
        Inr \<lparr>cfg_to = Some receiver_addr, cfg_value = 1000000, cfg_gas = Some 21000,
             cfg_maxPriorityFeePerGas = None\<rparr>"
    and h6: "snd (fillPriorityFee demo_env demo_provider
          \<lparr>cfg_to = Some receiver_addr, cfg_value = 1000000, cfg_gas = Some 21000,
           cfg_maxPriorityFeePerGas = None\<rparr>) =
        Inr \<lparr>cfg_to = Some receiver_addr, cfg_value = 1000000, cfg_gas = Some 21000,
             cfg_maxPriorityFeePerGas = Some 2\<rparr>"
    by (simp_all add: transferEther_defs)
  have p: "prepareSendTransaction demo_env demo_provider (te_receiverAddress demo_transferEther)
      937000 = Inr \<lparr>cfg_to = Some receiver_addr, cfg_value = 937000, cfg_gas = Some 21000,
                     cfg_maxPriorityFeePerGas = None\<rparr>"
    by (simp add: demo_defs demo_transferEther_def)
  from transferEther_adjusted_value [OF h1 h2 h3 h4 h5 h6] p h1 h2 h3 h4 h5 h6
  show ?thesis by (simp add: toBigInt_def or_else_def demo_transferEther_def)
qed

section \<open>The request objects and the bindings of the module\<close>

text \<open>When \<open>handleTx\<close> leaves the object it is given as it is, every helper but
  \<open>approveERC20\<close> leaves the heap as it found it.\<close>

lemma isApprovedERC20_frame:
  "fst (isApprovedERC20 E p) = \<lparr>request = p, module_bindings = module_init\<rparr>"
  by (simp add: isApprovedERC20_def heap_defs)

lemma listERC1155_frame:
  "fst (listERC1155 E p) = \<lparr>request = p, module_bindings = module_init\<rparr>"
  by (simp add: listERC1155_def heap_defs)

lemma transferEther_frame:
  "fst (transferEther E p) = \<lparr>request = p, module_bindings = module_init\<rparr>"
  by (simp add: transferEther_def heap_defs)

lemma approveAllERC721_frame:
  assumes "\<forall>w c. fst (handleTx E w c) = w"
  shows "fst (approveAllERC721 E p) = \<lparr>request = p, module_bindings = module_init\<rparr>"
  using assms by (simp add: approveAllERC721_def heap_defs core_defs)

lemma transferERC721_frame:
  assumes "\<forall>w c. fst (handleTx E w c) = w"
  shows "fst (transferERC721 E p) = \<lparr>request = p, module_bindings = module_init\<rparr>"
  using assms by (simp add: transferERC721_def heap_defs core_defs split: sum.splits)

lemma batchTransferERC721_frame:
  assumes "\<forall>w c. fst (handleTx E w c) = w"
  shows "fst (batchTransferERC721 E p) = \<lparr>request = p, module_bindings = module_init\<rparr>"
  using assms by (simp add: batchTransferERC721_def heap_defs core_defs)

lemma transferERC1155_frame:
  assumes "\<forall>w c. fst (handleTx E w c) = w"
  shows "fst (transferERC1155 E p) = \<lparr>request = p, module_bindings = module_init\<rparr>"
  using assms
  by (simp add: transferERC1155_def heap_defs core_defs filterLoop_start split: sum.splits)

lemma transferERC20_frame:
  assumes "\<forall>w c. fst (handleTx E w c) = w"
  shows "fst (transferERC20 E p) = \<lparr>request = p, module_bindings = module_init\<rparr>"
  using assms by (simp add: transferERC20_def heap_defs core_defs)

lemma disperseETH_frame:
  assumes "\<forall>w c. fst (handleTx E w c) = w"
  shows "fst (disperseETH E p) = \<lparr>request = p, module_bindings = module_init\<rparr>"
  using assms
  by (simp add: disperseETH_def heap_defs core_defs assertReceivers_run assertAmounts_run
      split: option.splits)

lemma disperseERC20_frame:
  assumes "\<forall>w c. fst (handleTx E w c) = w"
  shows "fst (disperseERC20 E p) = \<lparr>request = p, module_bindings = module_init\<rparr>"
  using assms
  by (simp add: disperseERC20_def heap_defs core_defs assertReceivers_run assertAmounts_run
      split: option.splits)

lemma approveERC20_onTrySomethingElse_frame:
  assumes "\<forall>w c. fst (handleTx E w c) = w"
  shows "fst (approveERC20_onTrySomethingElse E p) = \<lparr>request = p, module_bindings = module_init\<rparr>"
  using assms by (simp add: approveERC20_onTrySomethingElse_def heap_defs core_defs)

text \<open>\<open>approveERC20\<close> leaves the request object with its assignment.\<close>

lemma approveERC20_frame:
  assumes "\<forall>w c. fst (handleTx E w c) = w"
  shows "fst (approveERC20 E p) =
           \<lparr>request =
              (if addressOk E (ap_spenderAddress p) \<and> addressOk E (contractAddress p)
               then p\<lparr>onTrySomethingElse := Some ApproveAlternateABI\<rparr> else p),
            module_bindings = module_init\<rparr>"
  using assms by (simp add: approveERC20_def heap_defs core_defs)

text \<open>
  Claim C6, as amended. \<open>isApprovedERC20\<close>, \<open>listERC1155\<close> and \<open>transferEther\<close>,
  which hand their request object to no one, end with the object as they received it and
  with the bindings of the module as the module declares them. The other helpers hand the
  object to \<open>handleTx\<close>. When \<open>handleTx\<close> leaves the object it is given as it is, each
  of them but \<open>approveERC20\<close>, and the closure of \<open>approveERC20\<close>, ends in the same
  way, and \<open>approveERC20\<close> ends with the bindings of the module as declared and with its
  request object as received but for \<open>onTrySomethingElse\<close>, which it assigns once its two
  address checks have passed.
\<close>

theorem request_frame:
  "props_after (isApprovedERC20 E p1) = p1 \<and>
   module_after (isApprovedERC20 E p1) = module_init \<and>
   props_after (listERC1155 E p2) = p2 \<and>
   module_after (listERC1155 E p2) = module_init \<and>
   props_after (transferEther E p3) = p3 \<and>
   module_after (transferEther E p3) = module_init \<and>
   ((\<forall>w c. fst (handleTx E w c) = w) \<longrightarrow>
      props_after (approveAllERC721 E p4) = p4 \<and>
      module_after (approveAllERC721 E p4) = module_init \<and>
      props_after (transferERC721 E p5) = p5 \<and>
      module_after (transferERC721 E p5) = module_init \<and>
      props_after (batchTransferERC721 E p6) = p6 \<and>
      module_after (batchTransferERC721 E p6) = module_init \<and>
      props_after (transferERC1155 E p7) = p7 \<and>
      module_after (transferERC1155 E p7) = module_init \<and>
      props_after (transferERC20 E p8) = p8 \<and>
      module_after (transferERC20 E p8) = module_init \<and>
      props_after (disperseETH E p9) = p9 \<and>
      module_after (disperseETH E p9) = module_init \<and>
      props_after (disperseERC20 E p10) = p10 \<and>
      module_after (disperseERC20 E p10) = module_init \<and>
      props_after (approveERC20_onTrySomethingElse E p11) = p11 \<and>
      module_after (approveERC20_onTrySomethingElse E p11) = module_init \<and>
      props_after (approveERC20 E p) =
        (if addressOk E (ap_spenderAddress p) \<and> addressOk E (contractAddress p)
         then p\<lparr>onTrySomethingElse := Some ApproveAlternateABI\<rparr> else p) \<and>
      module_after (approveERC20 E p) = module_init)"
proof -
  have "props_after (approveAllERC721 E p4) = p4 \<and>
      module_after (approveAllERC721 E p4) = module_init \<and>
      props_after (transferERC721 E p5) = p5 \<and>
      module_after (transferERC721 E p5) = module_init \<and>
      props_after (batchTransferERC721 E p6) = p6 \<and>
      module_after (batchTransferERC721 E p6) = module_init \<and>
      props_after (transferERC1155 E p7) = p7 \<and>
      module_after (transferERC1155 E p7) = module_init \<and>
      props_after (transferERC20 E p8) = p8 \<and>
      module_after (transferERC20 E p8) = module_init \<and>
      props_after (disperseETH E p9) = p9 \<and>
      module_after (disperseETH E p9) = module_init \<and>
      props_after (disperseERC20 E p10) = p10 \<and>
      module_after (disperseERC20 E p10) = module_init \<and>
      props_after (approveERC20_onTrySomethingElse E p11) = p11 \<and>
      module_after (approveERC20_onTrySomethingElse E p11) = module_init \<and>
      props_after (approveERC20 E p) =
        (if addressOk E (ap_spenderAddress p) \<and> addressOk E (contractAddress p)
         then p\<lparr>onTrySomethingElse := Some ApproveAlternateABI\<rparr> else p) \<and>
      module_after (approveERC20 E p) = module_init"
    if h: "\<forall>w c. fst (handleTx E w c) = w"
    by (simp add: props_after_def module_after_def approveAllERC721_frame [OF h]
        transferERC721_frame [OF h] batchTransferERC721_frame [OF h]
        transferERC1155_frame [OF h] transferERC20_frame [OF h] disperseETH_frame [OF h]
        disperseERC20_frame [OF h] approveERC20_onTrySomethingElse_frame [OF h]
        approveERC20_frame [OF h])
  then show ?thesis
    by (simp add: props_after_def module_after_def isApprovedERC20_frame listERC1155_frame
        transferEther_frame)
qed

text \<open>The \<open>handleTx\<close> of the concrete environment leaves its object as it is, and
  \<open>transferERC20\<close> and \<open>approveERC20\<close> end as stated. Where \<open>handleTx\<close> clears the status
  callback of its object, the request object of \<open>transferERC20\<close> ends without its status
  callback.\<close>

theorem request_frame_witness:
  "(\<forall>w c. fst (handleTx demo_env w c) = w) \<and>
   props_after (transferEther demo_env demo_transferEther) = demo_transferEther \<and>
   module_after (transferEther demo_env demo_transferEther) = module_init \<and>
   props_after (transferERC20 demo_env demo_transferERC20) = demo_transferERC20 \<and>
   module_after (transferERC20 demo_env demo_transferERC20) = module_init \<and>
   props_after (approveERC20 demo_env demo_approve) =
     demo_approve\<lparr>onTrySomethingElse := Some ApproveAlternateABI\<rparr> \<and>
   module_after (approveERC20 demo_env demo_approve) = module_init \<and>
   props_after (transferERC20 meddling_env demo_transferERC20) =
     demo_transferERC20\<lparr>statusHandler := None\<rparr>"
proof -
  have h: "\<forall>w c. fst (handleTx demo_env w c) = w"
    by (simp add: demo_env_def)
  have m: "props_after (transferERC20 meddling_env demo_transferERC20) =
      demo_transferERC20\<lparr>statusHandler := None\<rparr>"
    by (simp add: transferERC20_def act_defs overwrite_def writeTransaction.truncate_def
        demo_defs demo_transferERC20_def)
  note f = request_frame [of demo_env _ _ demo_transferEther _ _ _ _ demo_transferERC20 _ _ _
      demo_approve]
  from f h m show ?thesis
    by (simp add: demo_defs demo_approve_def)
qed

text \<open>Claim C6 as stated fails: \<open>approveERC20\<close> writes \<open>props.onTrySomethingElse\<close>, with a
  \<open>handleTx\<close> that writes nothing.\<close>

theorem approveERC20_writes_props_counterexample:
  "(\<forall>w c. fst (handleTx demo_env w c) = w) \<and>
   onTrySomethingElse demo_approve = None \<and>
   onTrySomethingElse (props_after (approveERC20 demo_env demo_approve)) = Some ApproveAlternateABI \<and>
   props_after (approveERC20 demo_env demo_approve) \<noteq> demo_approve"
proof -
  have h: "\<forall>w c. fst (handleTx demo_env w c) = w"
    by (simp add: demo_env_def)
  from approveERC20_frame [OF h, of demo_approve] h show ?thesis
    by (simp add: props_after_def demo_approve_def demo_defs)
qed

end
